theory Spec2Isabelle
  imports Complex_Main "HOL-Library.Log_Nat"
begin

section \<open>JavaScript values\<close>

text \<open>
  A JavaScript number is an IEEE 754 double. In the route handlers a number is written by
  its exact value, a rational, and every sum, difference, product and quotient is rounded
  to the nearest double as the runtime rounds it (\<open>fl\<close>, ties to the even significand).
  Overflow to \<^verbatim>\<open>Infinity\<close> is outside the model: magnitudes stay below \<open>2 ^ 1024\<close>. The
  geolocation utilities call the trigonometric functions and are modelled on the real
  numbers, without rounding. A \<^verbatim>\<open>Date\<close> is its \<^verbatim>\<open>getTime()\<close> value, an integer count of
  milliseconds.
\<close>

text \<open>\<open>pow2 k\<close> is \<open>2\<close> to the power \<open>k\<close>, also for a negative \<open>k\<close>.\<close>

definition pow2 :: "int \<Rightarrow> rat" where
  "pow2 k = (if 0 \<le> k then 2 ^ nat k else 1 / 2 ^ nat (- k))"

text \<open>
  The binary exponent of a number other than 0: the \<open>e\<close> with
  \<open>2 ^ e \<le> \<bar>x\<bar> < 2 ^ (e + 1)\<close>. \<open>bitlen n\<close> is the number of binary digits of \<open>n\<close>.
\<close>

definition exponent :: "rat \<Rightarrow> int" where
  "exponent x =
     (let a = \<bar>x\<bar>
      in if 1 \<le> a then bitlen \<lfloor>a\<rfloor> - 1
         else let j = bitlen \<lfloor>1 / a\<rfloor> - 1
              in if a * pow2 j = 1 then - j else - j - 1)"

text \<open>The nearest integer, a tie going to the even one.\<close>

definition roundEven :: "rat \<Rightarrow> int" where
  "roundEven m =
     (let f = \<lfloor>m\<rfloor>; r = m - of_int f
      in if r < 1 / 2 then f
         else if 1 / 2 < r then f + 1
         else if even f then f else f + 1)"

text \<open>
  The nearest double: a significand of 53 bits, and below \<open>2 ^ (- 1022)\<close> the fixed
  spacing of the subnormal numbers.
\<close>

definition fl :: "rat \<Rightarrow> rat" where
  "fl x =
     (if x = 0 then 0
      else let ulp = pow2 (max (exponent x) (- 1022) - 52)
           in of_int (roundEven (x / ulp)) * ulp)"

text \<open>The operators \<^verbatim>\<open>+\<close>, \<^verbatim>\<open>-\<close>, \<^verbatim>\<open>*\<close> and \<^verbatim>\<open>/\<close> on doubles.\<close>

definition fadd :: "rat \<Rightarrow> rat \<Rightarrow> rat" where
  "fadd x y = fl (x + y)"

definition fsub :: "rat \<Rightarrow> rat \<Rightarrow> rat" where
  "fsub x y = fl (x - y)"

definition fmul :: "rat \<Rightarrow> rat \<Rightarrow> rat" where
  "fmul x y = fl (x * y)"

definition fdiv :: "rat \<Rightarrow> rat \<Rightarrow> rat" where
  "fdiv x y = fl (x / y)"

text \<open>
  \<^verbatim>\<open>Math.round\<close> of a double: the nearest integer, a tie going up. It is exact on the
  double it is given.
\<close>

definition js_round :: "rat \<Rightarrow> int" where
  "js_round x = \<lfloor>x + 1 / 2\<rfloor>"

text \<open>
  \<^verbatim>\<open>new Date(t)\<close>: a time value beyond 8.64e15 ms on either side gives an invalid date
  (\<open>validTime\<close>); otherwise the fraction of a millisecond is dropped (towards zero).
\<close>

definition validTime :: "rat \<Rightarrow> bool" where
  "validTime t \<longleftrightarrow> \<bar>t\<bar> \<le> 8640000000000000"

definition js_Date :: "rat \<Rightarrow> int" where
  "js_Date t = (if 0 \<le> t then \<lfloor>t\<rfloor> else \<lceil>t\<rceil>)"

text \<open>The result of an awaited call that may reject.\<close>

datatype 'a outcome = Raised | Returned 'a

text \<open>
  A field of a JSON body that the handler first tests for truthiness and then parses:
  \<open>Absent\<close> is a falsy value, \<open>Unparsable\<close> a truthy one that parses to \<^verbatim>\<open>NaN\<close> or to
  an invalid date, \<open>Parsed v\<close> a truthy one that parses to \<open>v\<close>.
\<close>

datatype 'a field = Absent | Unparsable | Parsed 'a

text \<open>\<^verbatim>\<open>Math.atan2(y, x)\<close> on the reals.\<close>

definition js_atan2 :: "real \<Rightarrow> real \<Rightarrow> real" where
  "js_atan2 y x =
     (if 0 < x then arctan (y / x)
      else if x < 0 then (if 0 \<le> y then arctan (y / x) + pi else arctan (y / x) - pi)
      else if 0 < y then pi / 2
      else if y < 0 then - (pi / 2)
      else 0)"

text \<open>A number that may be \<^verbatim>\<open>Infinity\<close>, as the running minimum of the route loop is.\<close>

datatype jsnum = Fin real | Infinity

fun js_less :: "real \<Rightarrow> jsnum \<Rightarrow> bool" where
  "js_less d Infinity = True"
| "js_less d (Fin m) = (d < m)"

fun js_min :: "jsnum \<Rightarrow> real \<Rightarrow> real" where
  "js_min Infinity d = d"
| "js_min (Fin m) d = min m d"


section \<open>Geolocation utilities\<close>

definition haversineDistance :: "real \<Rightarrow> real \<Rightarrow> real \<Rightarrow> real \<Rightarrow> real" where
  "haversineDistance lat1 lng1 lat2 lng2 =
     (let R = 6371;
          dLat = ((lat2 - lat1) * pi) / 180;
          dLng = ((lng2 - lng1) * pi) / 180;
          a = sin (dLat / 2) * sin (dLat / 2) +
              cos ((lat1 * pi) / 180) * cos ((lat2 * pi) / 180) *
              sin (dLng / 2) * sin (dLng / 2);
          c = 2 * js_atan2 (sqrt a) (sqrt (1 - a))
      in R * c)"

definition pointToSegmentDistance ::
  "real \<Rightarrow> real \<Rightarrow> real \<Rightarrow> real \<Rightarrow> real \<Rightarrow> real \<Rightarrow> real" where
  "pointToSegmentDistance px py ax ay bx by =
     (let dx = bx - ax; dy = by - ay
      in if dx = 0 \<and> dy = 0 then haversineDistance px py ax ay
         else let t = ((px - ax) * dx + (py - ay) * dy) / (dx * dx + dy * dy);
                  t' = max 0 (min 1 t)
              in haversineDistance px py (ax + t' * dx) (ay + t' * dy))"

text \<open>
  The loop \<^verbatim>\<open>for (let i = 0; i < routeCoords.length - 1; i++)\<close>. In JavaScript the bound
  of an empty route is \<open>-1\<close>; on naturals the test is written \<open>i + 1 < length\<close>. Each
  coordinate of the route is a pair \<open>[lng, lat]\<close>.
\<close>

function routeLoop :: "real \<Rightarrow> real \<Rightarrow> (real \<times> real) list \<Rightarrow> nat \<Rightarrow> jsnum \<Rightarrow> jsnum" where
  "routeLoop lat lng routeCoords i minDist =
     (if i + 1 < length routeCoords
      then let aLng = fst (routeCoords ! i); aLat = snd (routeCoords ! i);
               bLng = fst (routeCoords ! (i + 1)); bLat = snd (routeCoords ! (i + 1));
               d = pointToSegmentDistance lat lng aLat aLng bLat bLng
           in routeLoop lat lng routeCoords (i + 1) (if js_less d minDist then Fin d else minDist)
      else minDist)"
  by pat_completeness auto
termination
  by (relation "measure (\<lambda>(lat, lng, cs, i, m). length cs - i)") auto

declare routeLoop.simps [simp del]

definition pointToRouteDistance :: "real \<Rightarrow> real \<Rightarrow> (real \<times> real) list \<Rightarrow> jsnum" where
  "pointToRouteDistance lat lng routeCoords = routeLoop lat lng routeCoords 0 Infinity"

section \<open>Data model\<close>

text \<open>
  The documents of the three collections the handlers read and write, with the fields
  those handlers use. Enumerated string fields are datatypes.
\<close>

datatype port_status = Available | Occupied | Maintenance | Reserved

datatype booking_status = Pending | Confirmed | Active | Completed | Cancelled | NoShow

datatype booking_source = Online | WalkInQr | WalkInManual

datatype payment_method = Khalti | Cash | OtherMethod

datatype user_role = RoleUser | Admin | Superadmin

text \<open>
  The station and port references of a booking are stored untyped
  (\<^verbatim>\<open>Schema.Types.Mixed\<close>, declared \<^verbatim>\<open>mongoose.Types.ObjectId | string\<close>): a stored
  reference is either an ObjectId, written here by its hexadecimal string, or a plain
  string. A query on such a field compares the stored value with the value given, kind
  included. \<open>js_String\<close> is \<^verbatim>\<open>String(reference)\<close>.
\<close>

datatype ident = ObjId string | StrId string

fun js_String :: "ident \<Rightarrow> string" where
  "js_String (ObjId h) = h"
| "js_String (StrId s) = s"

text \<open>
  What a station has stored under \<^verbatim>\<open>pricing.perHour\<close>: nothing, \<^verbatim>\<open>null\<close>, or a number.
\<close>

datatype stored_rate = NoRate | NullRate | Rate rat

text \<open>
  \<^verbatim>\<open>station.pricing?.perHour\<close>, \<open>None\<close> when it is \<^verbatim>\<open>null\<close> or \<^verbatim>\<open>undefined\<close>. A station read
  through the \<^verbatim>\<open>Station\<close> model is a hydrated document: the schema declares
  \<^verbatim>\<open>perHour: { type: Number, default: 0 }\<close>, so a station stored without a rate reads as
  0 (\<open>modelPerHour\<close>). A station loaded from the demo file is a plain object, read as it is
  (\<open>filePerHour\<close>).
\<close>

definition modelPerHour :: "stored_rate \<Rightarrow> rat option" where
  "modelPerHour stored = (case stored of NoRate \<Rightarrow> Some 0 | NullRate \<Rightarrow> None | Rate x \<Rightarrow> Some x)"

definition filePerHour :: "stored_rate \<Rightarrow> rat option" where
  "filePerHour stored = (case stored of NoRate \<Rightarrow> None | NullRate \<Rightarrow> None | Rate x \<Rightarrow> Some x)"

text \<open>
  \<^verbatim>\<open>IChargingPort\<close> and \<^verbatim>\<open>IStationDocument\<close>. The \<^verbatim>\<open>_id\<close> of a port is optional in the
  interface; the handlers fall back on \<^verbatim>\<open>portNumber\<close> where it is absent. \<open>perHour\<close> is
  the stored \<^verbatim>\<open>pricing.perHour\<close>.
\<close>

record charging_port =
  port_id :: "string option"
  portNumber :: string
  portStatus :: port_status
  currentBookingId :: "string option"

record station =
  station_id :: string
  adminId :: "string option"
  chargingPorts :: "charging_port list"
  perHour :: stored_rate

text \<open>
  The user document (\<^verbatim>\<open>name\<close>, \<^verbatim>\<open>email\<close> and \<^verbatim>\<open>role\<close> under the names \<open>user_name\<close>,
  \<open>user_email\<close> and \<open>role\<close>) and \<^verbatim>\<open>IBookingDocument\<close>; times are milliseconds.
\<close>

record user =
  clerkId :: string
  user_name :: string
  user_email :: string
  role :: user_role

record booking =
  booking_id :: string
  userId :: string
  userName :: string
  userEmail :: string
  stationId :: ident
  portId :: ident
  startTime :: int
  estimatedDuration :: rat
  endTime :: int
  status :: booking_status
  source :: booking_source
  qrCode :: "string option"
  khaltiPidx :: "string option"
  amountPaid :: rat
  paymentMethod :: payment_method
  customerName :: string
  customerPhone :: string

record db =
  users :: "user list"
  stations :: "station list"
  bookings :: "booking list"

text \<open>
  What a handler learns from outside the database while it serves one request:
  \<^item> \<open>toObjectId\<close>: the driver's cast of a string to an ObjectId
    (\<^verbatim>\<open>mongoose.Types.ObjectId.isValid\<close> followed by \<^verbatim>\<open>new ObjectId\<close>), \<open>None\<close> when the
    string is not valid, otherwise the hexadecimal string of the ObjectId;
  \<^item> \<open>authUserId\<close>: the \<^verbatim>\<open>userId\<close> of \<^verbatim>\<open>auth()\<close>, empty when nobody is signed in;
  \<^item> \<open>dateNow\<close>, \<open>dateStamp\<close>: \<^verbatim>\<open>new Date()\<close> and the decimal digits of \<^verbatim>\<open>Date.now()\<close>; the
    clock is days away from the ends of the range of \<^verbatim>\<open>Date\<close>, so a time within hours
    of it is a valid date;
  \<^item> \<open>createdId\<close>: the \<^verbatim>\<open>_id\<close> the database gives the booking the handler creates;
  \<^item> \<open>khaltiSecretKey\<close>: whether \<^verbatim>\<open>process.env.KHALTI_SECRET_KEY\<close> is set;
  \<^item> \<open>currentUser\<close>: the identity provider's profile, \<open>None\<close> when there is none,
    otherwise \<^verbatim>\<open>emailAddresses[0]?.emailAddress || ""\<close> and the trimmed full name;
  \<^item> \<open>loadStationFromFile\<close>: the file-based demo stations;
  \<^item> \<open>calculateETARaises\<close>: the ETA computation is attempted and rejects;
  \<^item> \<open>toDataURL\<close>, \<open>khaltiInitiate\<close> (the \<^verbatim>\<open>pidx\<close> and the payment URL) and
    \<open>khaltiLookup\<close> (the \<^verbatim>\<open>status\<close> of the lookup): the results of the awaited calls.
\<close>

record env =
  toObjectId :: "string \<Rightarrow> string option"
  authUserId :: string
  dateNow :: int
  dateStamp :: string
  createdId :: string
  khaltiSecretKey :: bool
  currentUser :: "(string \<times> string) option"
  loadStationFromFile :: "string \<Rightarrow> station option"
  calculateETARaises :: bool
  toDataURL :: "string outcome"
  khaltiInitiate :: "(string \<times> string) outcome"
  khaltiLookup :: "string outcome"

section \<open>Database operations\<close>

text \<open>
  \<open>updateFirst P f\<close> replaces the first element that satisfies \<open>P\<close> by its image
  under \<open>f\<close> and leaves a list without such an element as it is.
\<close>

fun updateFirst :: "('a \<Rightarrow> bool) \<Rightarrow> ('a \<Rightarrow> 'a) \<Rightarrow> 'a list \<Rightarrow> 'a list" where
  "updateFirst P f [] = []"
| "updateFirst P f (x # xs) = (if P x then f x # xs else x # updateFirst P f xs)"

text \<open>
  \<^verbatim>\<open>Model.findById(id)\<close>: the identifier is cast to an ObjectId, the query rejects when
  it cannot be cast, and otherwise yields the document with that \<^verbatim>\<open>_id\<close>, if any.
\<close>

definition Station_findById ::
  "(string \<Rightarrow> string option) \<Rightarrow> station list \<Rightarrow> string \<Rightarrow> station option outcome" where
  "Station_findById cast sts s =
     (case cast s of
        None \<Rightarrow> Raised
      | Some i \<Rightarrow> Returned (find (\<lambda>st. station_id st = i) sts))"

definition Booking_findById ::
  "(string \<Rightarrow> string option) \<Rightarrow> booking list \<Rightarrow> string \<Rightarrow> booking option outcome" where
  "Booking_findById cast bs s =
     (case cast s of
        None \<Rightarrow> Raised
      | Some i \<Rightarrow> Returned (find (\<lambda>b. booking_id b = i) bs))"

text \<open>
  \<^verbatim>\<open>booking.save()\<close> writes the document back under its \<^verbatim>\<open>_id\<close>.
\<close>

definition saveBooking :: "booking \<Rightarrow> booking list \<Rightarrow> booking list" where
  "saveBooking b bs = updateFirst (\<lambda>x. booking_id x = booking_id b) (\<lambda>x. b) bs"

text \<open>
  \<^verbatim>\<open>Station.updateOne({ _id: sid, <condition on a port> }, { $set: { "chargingPorts.$.f": v } })\<close>:
  the station with that \<^verbatim>\<open>_id\<close> that has a port satisfying the condition is updated, and
  the positional operator addresses the first such port.
\<close>

definition updatePort ::
  "string \<Rightarrow> (charging_port \<Rightarrow> bool) \<Rightarrow> (charging_port \<Rightarrow> charging_port) \<Rightarrow>
   station list \<Rightarrow> station list" where
  "updatePort sid P f sts =
     updateFirst (\<lambda>st. station_id st = sid \<and> list_ex P (chargingPorts st))
       (\<lambda>st. st\<lparr>chargingPorts := updateFirst P f (chargingPorts st)\<rparr>) sts"

text \<open>
  A stored reference used as a value of an ObjectId path: an ObjectId is taken as it is, a
  string is cast.
\<close>

fun castIdent :: "(string \<Rightarrow> string option) \<Rightarrow> ident \<Rightarrow> string option" where
  "castIdent cast (ObjId h) = Some h"
| "castIdent cast (StrId s) = cast s"

section \<open>Walk-in check-in by QR code\<close>

text \<open>
  \<^verbatim>\<open>POST /api/walk-in/checkin\<close> (\<^verbatim>\<open>src/app/api/walk-in/checkin/route.ts\<close>, lines 11 to
  129). A string field of the JSON body is a string, empty when the body leaves it out
  (both are falsy). \<open>cr_estimatedDuration\<close> is \<^verbatim>\<open>Number(estimatedDuration)\<close>, \<open>None\<close> when
  that is \<^verbatim>\<open>NaN\<close> (the field is missing or not numeric). The station is read through the
  model, and the sum, the products and the quotient are those of doubles.
\<close>

record checkin_request =
  cr_stationId :: string
  cr_portId :: string
  cr_customerName :: string
  cr_customerPhone :: string
  cr_estimatedDuration :: "rat option"

text \<open>
  \<^verbatim>\<open>String(p._id)\<close>, and \<^verbatim>\<open>String(p._id || p.portNumber)\<close>.
\<close>

definition idString :: "string option \<Rightarrow> string" where
  "idString i = (case i of None \<Rightarrow> ''undefined'' | Some h \<Rightarrow> h)"

definition portKey :: "charging_port \<Rightarrow> string" where
  "portKey p = (case port_id p of Some h \<Rightarrow> h | None \<Rightarrow> portNumber p)"

text \<open>
  \<^verbatim>\<open>Math.max(30, Math.min(Number(estimatedDuration) || 60, 480))\<close>: \<^verbatim>\<open>NaN\<close> and \<open>0\<close> are
  falsy, so both give 60.
\<close>

definition checkinDuration :: "rat option \<Rightarrow> rat" where
  "checkinDuration requested =
     max 30 (min (case requested of
                    None \<Rightarrow> 60
                  | Some n \<Rightarrow> if n = 0 then 60 else n) 480)"

definition POST_walkin_checkin :: "env \<Rightarrow> checkin_request \<Rightarrow> db \<Rightarrow> nat \<times> db" where
  "POST_walkin_checkin e r d =
     (if cr_stationId r = [] \<or> cr_portId r = [] then (400, d)
      else if cr_customerName r = [] \<or> cr_customerPhone r = [] then (400, d)
      else case Station_findById (toObjectId e) (stations d) (cr_stationId r) of
        Raised \<Rightarrow> (500, d)
      | Returned None \<Rightarrow> (404, d)
      | Returned (Some st) \<Rightarrow>
          (case find (\<lambda>p. idString (port_id p) = cr_portId r \<or> portNumber p = cr_portId r)
                  (chargingPorts st) of
             None \<Rightarrow> (404, d)
           | Some port \<Rightarrow>
               if portStatus port \<noteq> Available then (409, d)
               else
                 let duration = checkinDuration (cr_estimatedDuration r);
                     start = dateNow e;
                     endT = js_Date (fadd (of_int start) (fmul duration 60000));
                     rate = (case modelPerHour (perHour st) of None \<Rightarrow> 200 | Some x \<Rightarrow> x);
                     amount = js_round (fmul (fdiv duration 60) rate);
                     created = \<lparr>booking_id = createdId e,
                                userId = ''walk-in-qr-'' @ dateStamp e,
                                userName = cr_customerName r,
                                userEmail = [],
                                stationId = StrId (station_id st),
                                portId = StrId (portKey port),
                                startTime = start,
                                estimatedDuration = duration,
                                endTime = endT,
                                status = Active,
                                source = WalkInQr,
                                qrCode = None,
                                khaltiPidx = None,
                                amountPaid = of_int amount,
                                paymentMethod = Cash,
                                customerName = cr_customerName r,
                                customerPhone = cr_customerPhone r\<rparr>;
                     d1 = d\<lparr>bookings := bookings d @ [created]\<rparr>
                 in (201, d1\<lparr>stations :=
                            updatePort (station_id st) (\<lambda>q. port_id q = port_id port)
                              (\<lambda>q. q\<lparr>portStatus := Occupied,
                                      currentBookingId := Some (createdId e)\<rparr>)
                              (stations d1)\<rparr>)))"

section \<open>Admin walk-in sessions\<close>

text \<open>
  \<^verbatim>\<open>POST /api/admin/walk-in\<close> (the same file, lines 370 to 624), with its three actions.
  \<open>wr_amountPaid\<close> is \<^verbatim>\<open>amountPaid || 0\<close> and \<open>wr_paymentMethod\<close> is \<open>None\<close> when the
  body names no method.
\<close>

record walkin_request =
  wr_action :: string
  wr_stationId :: string
  wr_portId :: string
  wr_bookingId :: string
  wr_customerName :: string
  wr_customerPhone :: string
  wr_startTime :: "int field"
  wr_endTime :: "int field"
  wr_amountPaid :: rat
  wr_paymentMethod :: "payment_method option"

text \<open>
  \<^verbatim>\<open>objId ? await Station.findById(objId) : null\<close>.
\<close>

definition findStation :: "string option \<Rightarrow> station list \<Rightarrow> station option" where
  "findStation objId sts =
     (case objId of
        None \<Rightarrow> None
      | Some i \<Rightarrow> find (\<lambda>st. station_id st = i) sts)"

text \<open>
  The filter of the query for an active walk-in session on the port: the stored
  references are matched both as ObjectIds and as strings.
\<close>

definition activeWalkin :: "ident list \<Rightarrow> ident list \<Rightarrow> booking \<Rightarrow> bool" where
  "activeWalkin stationMatches portMatches b \<longleftrightarrow>
     stationId b \<in> set stationMatches \<and> portId b \<in> set portMatches \<and>
     source b \<in> {WalkInManual, WalkInQr} \<and> status b = Active"

text \<open>
  \<^verbatim>\<open>action === "start"\<close> (lines 388 to 483). The update of the port is attempted only when
  the port identifier is a valid ObjectId.
\<close>

definition walkin_start :: "env \<Rightarrow> walkin_request \<Rightarrow> user \<Rightarrow> db \<Rightarrow> nat \<times> db" where
  "walkin_start e r u d =
     (if wr_stationId r = [] \<or> wr_portId r = [] then (400, d)
      else
        let stationObjId = toObjectId e (wr_stationId r);
            portObjId = toObjectId e (wr_portId r)
        in case findStation stationObjId (stations d) of
             None \<Rightarrow> (404, d)
           | Some st \<Rightarrow>
               if role u = Admin \<and> adminId st \<noteq> Some (authUserId e) then (403, d)
               else
                 let portMatches = (case portObjId of
                                      Some p \<Rightarrow> [ObjId p, StrId (wr_portId r)]
                                    | None \<Rightarrow> [StrId (wr_portId r)]);
                     stationMatches = (case stationObjId of
                                         Some i \<Rightarrow> [ObjId i, StrId (wr_stationId r)]
                                       | None \<Rightarrow> [StrId (wr_stationId r)])
                 in case find (activeWalkin stationMatches portMatches) (bookings d) of
                      Some existing \<Rightarrow> (409, d)
                    | None \<Rightarrow>
                        let created = \<lparr>booking_id = createdId e,
                                       userId = ''walk-in-'' @ dateStamp e,
                                       userName = ''Walk-in'',
                                       userEmail = [],
                                       stationId = (case stationObjId of
                                                      Some i \<Rightarrow> ObjId i
                                                    | None \<Rightarrow> StrId (wr_stationId r)),
                                       portId = (case portObjId of
                                                   Some p \<Rightarrow> ObjId p
                                                 | None \<Rightarrow> StrId (wr_portId r)),
                                       startTime = dateNow e,
                                       estimatedDuration = 60,
                                       endTime = dateNow e + 3600000,
                                       status = Active,
                                       source = WalkInManual,
                                       qrCode = None,
                                       khaltiPidx = None,
                                       amountPaid = 0,
                                       paymentMethod = Cash,
                                       customerName = ''Walk-in'',
                                       customerPhone = []\<rparr>;
                            d1 = d\<lparr>bookings := bookings d @ [created]\<rparr>
                        in (201,
                            case portObjId of
                              None \<Rightarrow> d1
                            | Some p \<Rightarrow>
                                d1\<lparr>stations :=
                                     updatePort (station_id st) (\<lambda>q. port_id q = Some p)
                                       (\<lambda>q. q\<lparr>portStatus := Occupied\<rparr>) (stations d1)\<rparr>))"

text \<open>
  \<^verbatim>\<open>station?.pricing?.perHour || 200\<close>, the station read through the model: a missing
  station, a missing rate and the rate 0 all give 200.
\<close>

definition stopRate :: "station option \<Rightarrow> rat" where
  "stopRate st =
     (case st of
        None \<Rightarrow> 200
      | Some s \<Rightarrow> (case modelPerHour (perHour s) of
                     None \<Rightarrow> 200
                   | Some x \<Rightarrow> if x = 0 then 200 else x))"

text \<open>
  \<^verbatim>\<open>action === "stop"\<close> (lines 486 to 554).
\<close>

definition walkin_stop :: "env \<Rightarrow> walkin_request \<Rightarrow> user \<Rightarrow> db \<Rightarrow> nat \<times> db" where
  "walkin_stop e r u d =
     (if wr_bookingId r = [] then (400, d)
      else case Booking_findById (toObjectId e) (bookings d) (wr_bookingId r) of
        Raised \<Rightarrow> (500, d)
      | Returned None \<Rightarrow> (404, d)
      | Returned (Some b) \<Rightarrow>
          if status b \<noteq> Active then (404, d)
          else
            let stObjId = toObjectId e (js_String (stationId b));
                st = findStation stObjId (stations d)
            in if role u = Admin \<and>
                  (case st of None \<Rightarrow> True | Some s \<Rightarrow> adminId s \<noteq> Some (authUserId e))
               then (403, d)
               else
                 let durationMs = fsub (of_int (dateNow e)) (of_int (startTime b));
                     durationMins = max 1 (js_round (fdiv durationMs 60000));
                     amount = js_round (fmul (fdiv durationMs 3600000) (stopRate st));
                     saved = b\<lparr>endTime := dateNow e,
                               estimatedDuration := of_int durationMins,
                               amountPaid := of_int amount,
                               status := Completed\<rparr>;
                     d1 = d\<lparr>bookings := saveBooking saved (bookings d)\<rparr>;
                     portObjId = toObjectId e (js_String (portId b))
                 in (200,
                     case (stObjId, portObjId) of
                       (Some i, Some p) \<Rightarrow>
                         d1\<lparr>stations :=
                              updatePort i (\<lambda>q. port_id q = Some p)
                                (\<lambda>q. q\<lparr>portStatus := Available\<rparr>) (stations d1)\<rparr>
                     | _ \<Rightarrow> d1))"

text \<open>
  The legacy action that logs a finished session (lines 556 to 616). A start or end time
  that is not a date makes \<^verbatim>\<open>Booking.create\<close> reject.
\<close>

definition walkin_log :: "env \<Rightarrow> walkin_request \<Rightarrow> user \<Rightarrow> db \<Rightarrow> nat \<times> db" where
  "walkin_log e r u d =
     (if wr_stationId r = [] \<or> wr_portId r = [] \<or>
         wr_startTime r = Absent \<or> wr_endTime r = Absent then (400, d)
      else case (if role u = Admin
                 then Station_findById (toObjectId e) (stations d) (wr_stationId r)
                 else Returned None) of
        Raised \<Rightarrow> (500, d)
      | Returned st \<Rightarrow>
          if role u = Admin \<and>
             (case st of None \<Rightarrow> True | Some s \<Rightarrow> adminId s \<noteq> Some (authUserId e))
          then (403, d)
          else case (wr_startTime r, wr_endTime r) of
            (Parsed start, Parsed endT) \<Rightarrow>
              let durationMs = fsub (of_int endT) (of_int start);
                  duration = max 1 (js_round (fdiv durationMs 60000));
                  name = (if wr_customerName r = [] then ''Walk-in'' else wr_customerName r);
                  created = \<lparr>booking_id = createdId e,
                             userId = ''walk-in-'' @ dateStamp e,
                             userName = name,
                             userEmail = [],
                             stationId = StrId (wr_stationId r),
                             portId = StrId (wr_portId r),
                             startTime = start,
                             estimatedDuration = of_int duration,
                             endTime = endT,
                             status = Completed,
                             source = WalkInManual,
                             qrCode = None,
                             khaltiPidx = None,
                             amountPaid = wr_amountPaid r,
                             paymentMethod = (case wr_paymentMethod r of
                                                None \<Rightarrow> Cash
                                              | Some m \<Rightarrow> m),
                             customerName = name,
                             customerPhone = wr_customerPhone r\<rparr>
              in (201, d\<lparr>bookings := bookings d @ [created]\<rparr>)
          | _ \<Rightarrow> (500, d))"

definition POST_admin_walkin :: "env \<Rightarrow> walkin_request \<Rightarrow> db \<Rightarrow> nat \<times> db" where
  "POST_admin_walkin e r d =
     (if authUserId e = [] then (401, d)
      else case find (\<lambda>u. clerkId u = authUserId e) (users d) of
        None \<Rightarrow> (403, d)
      | Some u \<Rightarrow>
          if role u \<noteq> Admin \<and> role u \<noteq> Superadmin then (403, d)
          else
            let action = (if wr_action r = [] then ''log'' else wr_action r)
            in if action = ''start'' then walkin_start e r u d
               else if action = ''stop'' then walkin_stop e r u d
               else walkin_log e r u d)"

section \<open>Payment verification\<close>

text \<open>
  \<^verbatim>\<open>POST /api/payments/verify\<close> (\<^verbatim>\<open>src/app/api/payments/verify/route.ts\<close>).
\<close>

record verify_request =
  vr_pidx :: string
  vr_bookingId :: string

text \<open>
  The test \<^verbatim>\<open>/^[a-f\d]{24}$/i\<close>.
\<close>

definition isHexDigit :: "char \<Rightarrow> bool" where
  "isHexDigit c \<longleftrightarrow> c \<in> set ''0123456789abcdefABCDEF''"

definition isOid :: "string \<Rightarrow> bool" where
  "isOid s \<longleftrightarrow> length s = 24 \<and> list_all isHexDigit s"

text \<open>
  \<^verbatim>\<open>portFilter\<close> (lines 64 to 67): the booked port is sought by \<^verbatim>\<open>_id\<close> when the stored
  reference reads as 24 hexadecimal digits, and by \<^verbatim>\<open>portNumber\<close> otherwise. \<open>None\<close> when
  the reference cannot be cast to an ObjectId.
\<close>

definition portFilter :: "env \<Rightarrow> booking \<Rightarrow> (charging_port \<Rightarrow> bool) option" where
  "portFilter e b =
     (if isOid (js_String (portId b))
      then (case castIdent (toObjectId e) (portId b) of
              None \<Rightarrow> None
            | Some p \<Rightarrow> Some (\<lambda>q. port_id q = Some p))
      else Some (\<lambda>q. portNumber q = js_String (portId b)))"

text \<open>
  The update that reserves the port (lines 68 to 76); it rejects when the station or port
  reference cannot be cast.
\<close>

definition reservePort :: "env \<Rightarrow> booking \<Rightarrow> station list \<Rightarrow> station list outcome" where
  "reservePort e b sts =
     (case (castIdent (toObjectId e) (stationId b), portFilter e b) of
        (Some sid, Some P) \<Rightarrow>
          Returned (updatePort sid P
                      (\<lambda>q. q\<lparr>portStatus := Reserved, currentBookingId := Some (booking_id b)\<rparr>)
                      sts)
      | _ \<Rightarrow> Raised)"

definition POST_payments_verify :: "env \<Rightarrow> verify_request \<Rightarrow> db \<Rightarrow> nat \<times> db" where
  "POST_payments_verify e r d =
     (if authUserId e = [] then (401, d)
      else if vr_pidx r = [] \<or> vr_bookingId r = [] then (400, d)
      else if \<not> khaltiSecretKey e then (503, d)
      else case khaltiLookup e of
        Raised \<Rightarrow> (500, d)
      | Returned lookupStatus \<Rightarrow>
          (case Booking_findById (toObjectId e) (bookings d) (vr_bookingId r) of
             Raised \<Rightarrow> (500, d)
           | Returned None \<Rightarrow> (404, d)
           | Returned (Some b) \<Rightarrow>
               if userId b \<noteq> authUserId e then (403, d)
               else if status b \<in> {Confirmed, Active, Completed} then (200, d)
               else if lookupStatus = ''Completed'' then
                 let confirmed = b\<lparr>status := Confirmed\<rparr>;
                     d1 = d\<lparr>bookings := saveBooking confirmed (bookings d)\<rparr>
                 in (case reservePort e confirmed (stations d1) of
                       Raised \<Rightarrow> (500, d1)
                     | Returned sts \<Rightarrow> (200, d1\<lparr>stations := sts\<rparr>))
               else if lookupStatus = ''User canceled'' \<or> lookupStatus = ''Expired'' then
                 (200, d\<lparr>bookings := saveBooking (b\<lparr>status := Cancelled\<rparr>) (bookings d)\<rparr>)
               else if lookupStatus = ''Refunded'' \<or> lookupStatus = ''Partially refunded'' then
                 (200, d\<lparr>bookings := saveBooking (b\<lparr>status := Cancelled\<rparr>) (bookings d)\<rparr>)
               else (200, d)))"

section \<open>Booking creation and payment initiation\<close>

text \<open>
  \<^verbatim>\<open>POST /api/payments/initiate\<close> (\<^verbatim>\<open>src/app/api/payments/initiate/route.ts\<close>, lines 14 to
  214), in three steps: the checks up to the port lookup, the transaction, and the calls
  after the commit. \<open>ir_startTime\<close> is \<^verbatim>\<open>new Date(startTime)\<close>, \<open>Parsed\<close> with its time value
  when it is a valid date, and \<open>ir_estimatedDuration\<close> is \<^verbatim>\<open>Number(estimatedDuration)\<close>.
\<close>

record initiate_request =
  ir_stationId :: string
  ir_portId :: string
  ir_startTime :: "int field"
  ir_estimatedDuration :: "rat field"

text \<open>
  Lines 24 to 38: the user document, created from the identity provider's profile when
  the collection has none. The schema of the user requires the e-mail address
  (\<^verbatim>\<open>email: { type: String, required: true }\<close>), and an empty string does not satisfy it:
  \<^verbatim>\<open>User.create\<close> rejects for a profile without e-mail address.
\<close>

definition resolveUser :: "env \<Rightarrow> db \<Rightarrow> (user \<times> db) option outcome" where
  "resolveUser e d =
     (case find (\<lambda>u. clerkId u = authUserId e) (users d) of
        Some u \<Rightarrow> Returned (Some (u, d))
      | None \<Rightarrow>
          (case currentUser e of
             None \<Rightarrow> Returned None
           | Some (email, fullName) \<Rightarrow>
               if email = [] then Raised
               else
                 let u = \<lparr>clerkId = authUserId e,
                          user_name = (if fullName = [] then ''User'' else fullName),
                          user_email = email,
                          role = RoleUser\<rparr>
                 in Returned (Some (u, d\<lparr>users := users d @ [u]\<rparr>))))"

text \<open>
  \<^verbatim>\<open>String(port._id || port.portNumber || portId)\<close>.
\<close>

definition canonicalPortId :: "charging_port \<Rightarrow> string \<Rightarrow> string" where
  "canonicalPortId port requested =
     (case port_id port of
        Some h \<Rightarrow> h
      | None \<Rightarrow> if portNumber port \<noteq> [] then portNumber port else requested)"

text \<open>
  Lines 16 to 80. \<open>Inl\<close> is an early response; \<open>Inr\<close> carries the user, the database
  after the user lookup, the station and the port. A station whose identifier starts with
  \<^verbatim>\<open>station-\<close> is loaded from the demo file, any other through the model.
\<close>

definition initiate_lookup ::
  "env \<Rightarrow> initiate_request \<Rightarrow> db \<Rightarrow> (nat \<times> db) + (user \<times> db \<times> station \<times> charging_port)" where
  "initiate_lookup e r d =
     (if authUserId e = [] then Inl (401, d)
      else case resolveUser e d of
        Raised \<Rightarrow> Inl (500, d)
      | Returned None \<Rightarrow> Inl (404, d)
      | Returned (Some (u, d1)) \<Rightarrow>
          if ir_stationId r = [] \<or> ir_portId r = [] \<or>
             ir_startTime r = Absent \<or> ir_estimatedDuration r = Absent then Inl (400, d1)
          else if \<not> khaltiSecretKey e then Inl (503, d1)
          else case (if take 8 (ir_stationId r) = ''station-''
                     then Returned (loadStationFromFile e (ir_stationId r))
                     else Station_findById (toObjectId e) (stations d1) (ir_stationId r)) of
            Raised \<Rightarrow> Inl (500, d1)
          | Returned None \<Rightarrow> Inl (404, d1)
          | Returned (Some st) \<Rightarrow>
              (case find (\<lambda>p. portKey p = ir_portId r) (chargingPorts st) of
                 None \<Rightarrow> Inl (404, d1)
               | Some port \<Rightarrow> Inr (u, d1, st, port)))"

text \<open>
  The filter of the overlap query (lines 102 to 107).
\<close>

definition overlapping :: "string \<Rightarrow> string \<Rightarrow> int \<Rightarrow> int \<Rightarrow> booking \<Rightarrow> bool" where
  "overlapping sid pid start endT b \<longleftrightarrow>
     stationId b = StrId sid \<and> portId b = StrId pid \<and>
     status b \<in> {Pending, Confirmed, Active} \<and>
     startTime b < endT \<and> endTime b > start"

text \<open>
  The transaction (lines 96 to 143): the overlap query and, when it finds nothing, the
  insertion of the pending booking. \<^verbatim>\<open>Booking.create\<close> fills the fields the handler does
  not give with the defaults of the schema.
\<close>

definition initiate_transaction ::
  "env \<Rightarrow> initiate_request \<Rightarrow> user \<Rightarrow> string \<Rightarrow> int \<Rightarrow> int \<Rightarrow> rat \<Rightarrow> db \<Rightarrow>
   (nat \<times> db) + (booking \<times> db)" where
  "initiate_transaction e r u pid start endT durationMinutes d =
     (case find (overlapping (ir_stationId r) pid start endT) (bookings d) of
        Some existing \<Rightarrow> Inl (409, d)
      | None \<Rightarrow>
          let created = \<lparr>booking_id = createdId e,
                         userId = authUserId e,
                         userName = user_name u,
                         userEmail = user_email u,
                         stationId = StrId (ir_stationId r),
                         portId = StrId pid,
                         startTime = start,
                         estimatedDuration = durationMinutes,
                         endTime = endT,
                         status = Pending,
                         source = Online,
                         qrCode = None,
                         khaltiPidx = None,
                         amountPaid = 0,
                         paymentMethod = Khalti,
                         customerName = [],
                         customerPhone = []\<rparr>
          in Inr (created, d\<lparr>bookings := bookings d @ [created]\<rparr>))"

text \<open>
  After the commit (lines 145 to 206): the ETA, the QR code, the call of the payment
  gateway, and the save of the payment reference. A call that rejects is caught by the
  handler, which answers 500; nothing is written back in that case.
\<close>

definition initiate_payment :: "env \<Rightarrow> int \<Rightarrow> booking \<Rightarrow> db \<Rightarrow> nat \<times> db" where
  "initiate_payment e totalAmountNPR created d =
     (if calculateETARaises e then (500, d)
      else case toDataURL e of
        Raised \<Rightarrow> (500, d)
      | Returned qr \<Rightarrow>
          (case khaltiInitiate e of
             Raised \<Rightarrow> (500, d)
           | Returned (pidx, payment_url) \<Rightarrow>
               (200, d\<lparr>bookings :=
                        saveBooking (created\<lparr>qrCode := Some qr,
                                             khaltiPidx := Some pidx,
                                             amountPaid := of_int totalAmountNPR\<rparr>)
                          (bookings d)\<rparr>)))"

text \<open>
  Lines 92 and 93: the end of the slot,
  \<^verbatim>\<open>new Date(start.getTime() + durationMinutes * 60 * 1000)\<close>, \<open>None\<close> when that is an
  invalid date.
\<close>

definition bookingEnd :: "int \<Rightarrow> rat \<Rightarrow> int option" where
  "bookingEnd start durationMinutes =
     (let t = fadd (of_int start) (fmul (fmul durationMinutes 60) 1000)
      in if validTime t then Some (js_Date t) else None)"

text \<open>
  Lines 85 to 87: the amount in rupees. \<open>isFileBased\<close> tells how the station was read.
\<close>

definition totalAmountNPR :: "bool \<Rightarrow> station \<Rightarrow> rat \<Rightarrow> int" where
  "totalAmountNPR isFileBased st durationMinutes =
     (let perHourNPR =
            (case (if isFileBased then filePerHour (perHour st) else modelPerHour (perHour st)) of
               None \<Rightarrow> 200
             | Some x \<Rightarrow> x)
      in js_round (fmul perHourNPR (fdiv durationMinutes 60)))"

text \<open>
  A start time or a duration that does not parse, or a slot that ends outside the range
  of \<^verbatim>\<open>Date\<close>, gives an invalid end date; the overlap query cannot cast it and rejects
  inside the transaction, and the handler answers 500 with no booking stored.
\<close>

definition POST_payments_initiate :: "env \<Rightarrow> initiate_request \<Rightarrow> db \<Rightarrow> nat \<times> db" where
  "POST_payments_initiate e r d =
     (case initiate_lookup e r d of
        Inl response \<Rightarrow> response
      | Inr (u, d1, st, port) \<Rightarrow>
          (case (ir_startTime r, ir_estimatedDuration r) of
             (Parsed start, Parsed durationMinutes) \<Rightarrow>
               (case bookingEnd start durationMinutes of
                  None \<Rightarrow> (500, d1)
                | Some endT \<Rightarrow>
                    (case initiate_transaction e r u (canonicalPortId port (ir_portId r))
                            start endT durationMinutes d1 of
                       Inl response \<Rightarrow> response
                     | Inr (created, d2) \<Rightarrow>
                         initiate_payment e
                           (totalAmountNPR (take 8 (ir_stationId r) = ''station-'') st
                              durationMinutes)
                           created d2))
           | _ \<Rightarrow> (500, d1)))"

section \<open>The other route handlers\<close>

text \<open>
  The deprecated Stripe endpoints (\<^verbatim>\<open>src/app/api/payments/webhook/route.ts\<close> and the
  second document of \<^verbatim>\<open>initiate/route.ts\<close>) and \<^verbatim>\<open>POST /api/bookings\<close> answer every
  request with one status.
\<close>

definition POST_payments_webhook :: nat where
  "POST_payments_webhook = 410"

definition POST_payments_create_intent :: nat where
  "POST_payments_create_intent = 410"

definition POST_bookings :: nat where
  "POST_bookings = 403"

text \<open>
  The remaining handlers are given by their return statements, in the order of the
  source: one constructor for each, and the status it answers with. \<open>Raised\<close> is the
  handler's \<^verbatim>\<open>catch\<close>.
\<close>

datatype bookings_exit = BookingsNoSession | BookingsListed | BookingsRaised

fun GET_bookings :: "bookings_exit \<Rightarrow> nat" where
  "GET_bookings BookingsNoSession = 401"
| "GET_bookings BookingsListed = 200"
| "GET_bookings BookingsRaised = 500"

datatype eta_exit =
  EtaNoSession | EtaNoLocation | EtaNoBooking | EtaForbidden | EtaNoStationCoords |
  EtaNotComputed | EtaRefreshed | EtaRaised

fun POST_bookings_refresh_eta :: "eta_exit \<Rightarrow> nat" where
  "POST_bookings_refresh_eta EtaNoSession = 401"
| "POST_bookings_refresh_eta EtaNoLocation = 400"
| "POST_bookings_refresh_eta EtaNoBooking = 404"
| "POST_bookings_refresh_eta EtaForbidden = 403"
| "POST_bookings_refresh_eta EtaNoStationCoords = 400"
| "POST_bookings_refresh_eta EtaNotComputed = 500"
| "POST_bookings_refresh_eta EtaRefreshed = 200"
| "POST_bookings_refresh_eta EtaRaised = 500"

datatype ports_exit =
  PortsNoSession | PortsNotAdmin | PortsNoStation | PortsNotOwner | PortsMissingFields |
  PortsInvalidStatus | PortsNoPort | PortsSaved | PortsRaised

fun PATCH_admin_station_ports :: "ports_exit \<Rightarrow> nat" where
  "PATCH_admin_station_ports PortsNoSession = 401"
| "PATCH_admin_station_ports PortsNotAdmin = 403"
| "PATCH_admin_station_ports PortsNoStation = 404"
| "PATCH_admin_station_ports PortsNotOwner = 403"
| "PATCH_admin_station_ports PortsMissingFields = 400"
| "PATCH_admin_station_ports PortsInvalidStatus = 400"
| "PATCH_admin_station_ports PortsNoPort = 404"
| "PATCH_admin_station_ports PortsSaved = 200"
| "PATCH_admin_station_ports PortsRaised = 500"

datatype stations_exit = StationsNoSession | StationsNotAdmin | StationsListed | StationsRaised

fun GET_admin_stations :: "stations_exit \<Rightarrow> nat" where
  "GET_admin_stations StationsNoSession = 401"
| "GET_admin_stations StationsNotAdmin = 403"
| "GET_admin_stations StationsListed = 200"
| "GET_admin_stations StationsRaised = 500"

datatype create_station_exit =
  CreateNoSession | CreateNotAdmin | CreateMissingFields | CreateNoCoordinates |
  CreateBadLatitude | CreateBadLongitude | CreateNegativePrice | CreateDone | CreateRaised

fun POST_admin_stations :: "create_station_exit \<Rightarrow> nat" where
  "POST_admin_stations CreateNoSession = 401"
| "POST_admin_stations CreateNotAdmin = 403"
| "POST_admin_stations CreateMissingFields = 400"
| "POST_admin_stations CreateNoCoordinates = 400"
| "POST_admin_stations CreateBadLatitude = 400"
| "POST_admin_stations CreateBadLongitude = 400"
| "POST_admin_stations CreateNegativePrice = 400"
| "POST_admin_stations CreateDone = 201"
| "POST_admin_stations CreateRaised = 500"

datatype walkins_exit = WalkinsNoSession | WalkinsNotAdmin | WalkinsListed | WalkinsRaised

fun GET_admin_walkin :: "walkins_exit \<Rightarrow> nat" where
  "GET_admin_walkin WalkinsNoSession = 401"
| "GET_admin_walkin WalkinsNotAdmin = 403"
| "GET_admin_walkin WalkinsListed = 200"
| "GET_admin_walkin WalkinsRaised = 500"

section \<open>Observations and example data\<close>

text \<open>
  \<open>portWhere sid P\<close> is the port a reader finds at station \<open>sid\<close> under the condition
  \<open>P\<close>; \<open>portOf sid pid\<close> is the port with the \<^verbatim>\<open>_id\<close> \<open>pid\<close>.
\<close>

definition portWhere ::
  "string \<Rightarrow> (charging_port \<Rightarrow> bool) \<Rightarrow> station list \<Rightarrow> charging_port option" where
  "portWhere sid P sts =
     (case find (\<lambda>st. station_id st = sid) sts of
        None \<Rightarrow> None
      | Some st \<Rightarrow> find P (chargingPorts st))"

definition portOf :: "string \<Rightarrow> string \<Rightarrow> station list \<Rightarrow> charging_port option" where
  "portOf sid pid sts = portWhere sid (\<lambda>q. port_id q = Some pid) sts"

text \<open>
  An active walk-in booking stored for the station and port that a start request names,
  under either kind of reference.
\<close>

definition walkinOn :: "env \<Rightarrow> walkin_request \<Rightarrow> booking \<Rightarrow> bool" where
  "walkinOn e r b \<longleftrightarrow>
     (stationId b = StrId (wr_stationId r) \<or>
      map_option ObjId (toObjectId e (wr_stationId r)) = Some (stationId b)) \<and>
     (portId b = StrId (wr_portId r) \<or>
      map_option ObjId (toObjectId e (wr_portId r)) = Some (portId b)) \<and>
     (source b = WalkInManual \<or> source b = WalkInQr) \<and> status b = Active"

text \<open>
  The statuses of the uniform error pattern.
\<close>

definition uniformStatuses :: "nat set" where
  "uniformStatuses = {400, 401, 403, 404, 409, 500}"

text \<open>
  The data of the examples: the cast that accepts the strings of 24 hexadecimal digits
  and yields the ObjectId they denote, whose string has the digits in lower case; a
  station with two ports, an administrator and a customer, and requests to the handlers.
\<close>

definition lowerHex :: "char \<Rightarrow> char" where
  "lowerHex c =
     (if c = CHR ''A'' then CHR ''a'' else if c = CHR ''B'' then CHR ''b''
      else if c = CHR ''C'' then CHR ''c'' else if c = CHR ''D'' then CHR ''d''
      else if c = CHR ''E'' then CHR ''e'' else if c = CHR ''F'' then CHR ''f'' else c)"

definition objectIdOfHex :: "string \<Rightarrow> string option" where
  "objectIdOfHex s = (if isOid s then Some (map lowerHex s) else None)"

definition demoPort1 :: charging_port where
  "demoPort1 = \<lparr>port_id = Some ''64b000000000000000000a01'', portNumber = ''P1'',
                 portStatus = Available, currentBookingId = None\<rparr>"

definition demoPort2 :: charging_port where
  "demoPort2 = \<lparr>port_id = Some ''64b000000000000000000a02'', portNumber = ''P2'',
                 portStatus = Maintenance, currentBookingId = None\<rparr>"

definition demoStation :: station where
  "demoStation = \<lparr>station_id = ''64b000000000000000000001'', adminId = Some ''admin_1'',
                   chargingPorts = [demoPort1, demoPort2], perHour = Rate 200\<rparr>"

definition demoStationUnpriced :: station where
  "demoStationUnpriced = demoStation\<lparr>perHour := NoRate\<rparr>"

definition demoStationCheap :: station where
  "demoStationCheap = demoStation\<lparr>perHour := Rate 30\<rparr>"

definition demoAdmin :: user where
  "demoAdmin = \<lparr>clerkId = ''admin_1'', user_name = ''Asha'', user_email = ''asha@example.org'',
                 role = Admin\<rparr>"

definition demoUser :: user where
  "demoUser = \<lparr>clerkId = ''user_1'', user_name = ''Bibek'', user_email = ''bibek@example.org'',
                role = RoleUser\<rparr>"

definition demoDb :: db where
  "demoDb = \<lparr>users = [demoAdmin, demoUser], stations = [demoStation], bookings = []\<rparr>"

definition demoDbUnpriced :: db where
  "demoDbUnpriced = demoDb\<lparr>stations := [demoStationUnpriced]\<rparr>"

definition demoDbCheap :: db where
  "demoDbCheap = demoDb\<lparr>stations := [demoStationCheap]\<rparr>"

definition demoEnv :: env where
  "demoEnv = \<lparr>toObjectId = objectIdOfHex, authUserId = ''user_1'', dateNow = 1700000000000,
               dateStamp = ''1700000000000'', createdId = ''64b0000000000000000000b1'',
               khaltiSecretKey = True, currentUser = None,
               loadStationFromFile = (\<lambda>s. None), calculateETARaises = False,
               toDataURL = Returned ''data:image/png;base64,AAAA'',
               khaltiInitiate = Returned (''pidx-1'', ''https://pay.example/pidx-1''),
               khaltiLookup = Returned ''Completed''\<rparr>"

definition demoAdminEnv :: env where
  "demoAdminEnv = demoEnv\<lparr>authUserId := ''admin_1''\<rparr>"

definition demoCheckin :: "rat option \<Rightarrow> checkin_request" where
  "demoCheckin n = \<lparr>cr_stationId = ''64b000000000000000000001'', cr_portId = ''P1'',
                     cr_customerName = ''Chandra'', cr_customerPhone = ''9800000000'',
                     cr_estimatedDuration = n\<rparr>"

definition demoStart :: "string \<Rightarrow> walkin_request" where
  "demoStart port = \<lparr>wr_action = ''start'', wr_stationId = ''64b000000000000000000001'',
                      wr_portId = port, wr_bookingId = [], wr_customerName = [],
                      wr_customerPhone = [], wr_startTime = Absent, wr_endTime = Absent,
                      wr_amountPaid = 0, wr_paymentMethod = None\<rparr>"

definition demoSession :: "int \<Rightarrow> booking" where
  "demoSession started =
     \<lparr>booking_id = ''64b0000000000000000000b2'', userId = ''walk-in-1699990000000'',
      userName = ''Walk-in'', userEmail = [],
      stationId = ObjId ''64b000000000000000000001'',
      portId = ObjId ''64b000000000000000000a01'',
      startTime = started, estimatedDuration = 60, endTime = started + 3600000,
      status = Active, source = WalkInManual, qrCode = None, khaltiPidx = None,
      amountPaid = 0, paymentMethod = Cash, customerName = ''Walk-in'', customerPhone = []\<rparr>"

definition demoDbSession :: "int \<Rightarrow> db" where
  "demoDbSession started =
     \<lparr>users = [demoAdmin, demoUser],
      stations = [demoStation\<lparr>chargingPorts := [demoPort1\<lparr>portStatus := Occupied\<rparr>, demoPort2]\<rparr>],
      bookings = [demoSession started]\<rparr>"

definition demoStop :: walkin_request where
  "demoStop = \<lparr>wr_action = ''stop'', wr_stationId = [], wr_portId = [],
                wr_bookingId = ''64b0000000000000000000b2'', wr_customerName = [],
                wr_customerPhone = [], wr_startTime = Absent, wr_endTime = Absent,
                wr_amountPaid = 0, wr_paymentMethod = None\<rparr>"

definition demoPending :: booking where
  "demoPending =
     \<lparr>booking_id = ''64b0000000000000000000b3'', userId = ''user_1'',
      userName = ''Bibek'', userEmail = ''bibek@example.org'',
      stationId = StrId ''64b000000000000000000001'',
      portId = StrId ''64b000000000000000000a01'',
      startTime = 1700006400000, estimatedDuration = 60, endTime = 1700010000000,
      status = Pending, source = Online, qrCode = None, khaltiPidx = Some ''pidx-1'',
      amountPaid = 200, paymentMethod = Khalti, customerName = [], customerPhone = []\<rparr>"

definition demoDbPending :: db where
  "demoDbPending = demoDb\<lparr>bookings := [demoPending]\<rparr>"

definition demoVerify :: verify_request where
  "demoVerify = \<lparr>vr_pidx = ''pidx-1'', vr_bookingId = ''64b0000000000000000000b3''\<rparr>"

definition demoInitiate :: "int \<Rightarrow> initiate_request" where
  "demoInitiate start =
     \<lparr>ir_stationId = ''64b000000000000000000001'', ir_portId = ''64b000000000000000000a01'',
      ir_startTime = Parsed start, ir_estimatedDuration = Parsed 60\<rparr>"

definition demoEnvNoKey :: env where
  "demoEnvNoKey = demoEnv\<lparr>khaltiSecretKey := False\<rparr>"

definition demoEnvRefunded :: env where
  "demoEnvRefunded = demoEnv\<lparr>khaltiLookup := Returned ''Partially refunded''\<rparr>"

definition demoEnvOnline :: env where
  "demoEnvOnline = demoEnv\<lparr>createdId := ''64b0000000000000000000b4''\<rparr>"

definition demoDbWalkin :: db where
  "demoDbWalkin =
     snd (POST_admin_walkin demoAdminEnv (demoStart ''64b000000000000000000a01'') demoDb)"

definition demoEnvGatewayDown :: env where
  "demoEnvGatewayDown = demoEnv\<lparr>khaltiInitiate := Raised\<rparr>"

definition demoCreated :: booking where
  "demoCreated =
     \<lparr>booking_id = ''64b0000000000000000000b1'', userId = ''user_1'',
      userName = ''Bibek'', userEmail = ''bibek@example.org'',
      stationId = StrId ''64b000000000000000000001'',
      portId = StrId ''64b000000000000000000a01'',
      startTime = 1700010000000, estimatedDuration = 60, endTime = 1700013600000,
      status = Pending, source = Online, qrCode = None, khaltiPidx = None,
      amountPaid = 0, paymentMethod = Khalti, customerName = [], customerPhone = []\<rparr>"

section \<open>Properties of the geolocation utilities\<close>

lemma sin_half_sq_swap:
  "sin (((x - y) * pi) / 180 / 2) * sin (((x - y) * pi) / 180 / 2) =
   sin (((y - x) * pi) / 180 / 2) * sin (((y - x) * pi) / 180 / 2)"
proof -
  have "((x - y) * pi) / 180 / 2 = - (((y - x) * pi) / 180 / 2)"
    by (simp add: field_simps)
  then show ?thesis
    by simp
qed

lemma haversine_sym:
  "haversineDistance lat1 lng1 lat2 lng2 = haversineDistance lat2 lng2 lat1 lng1"
  unfolding haversineDistance_def Let_def
  using sin_half_sq_swap [of lat2 lat1] sin_half_sq_swap [of lng2 lng1]
  by (simp add: mult.commute mult.left_commute mult.assoc)

lemma haversine_zero: "haversineDistance lat lng lat lng = 0"
  by (simp add: haversineDistance_def js_atan2_def)

text \<open>
  Claim C7: haversineDistance is a function of its four arguments alone, it is symmetric
  (exchanging the two points does not change the distance), and the distance from a point
  to itself is 0. Stated on the real numbers.
\<close>

theorem haversineDistance_symmetric_zero:
  "haversineDistance lat1 lng1 lat2 lng2 = haversineDistance lat2 lng2 lat1 lng1 \<and>
   haversineDistance lat1 lng1 lat1 lng1 = 0"
  using haversine_sym [of lat1 lng1 lat2 lng2] haversine_zero [of lat1 lng1] by simp

theorem haversineDistance_symmetric_zero_witness:
  "haversineDistance 27 85 28 84 = haversineDistance 28 84 27 85 \<and>
   haversineDistance 27 85 27 85 = 0"
  using haversineDistance_symmetric_zero [of 27 85 28 84] .

lemma routeLoop_step:
  "i + 1 < length cs \<Longrightarrow>
   routeLoop lat lng cs i m =
   routeLoop lat lng cs (i + 1)
     (Fin (js_min m (pointToSegmentDistance lat lng (snd (cs ! i)) (fst (cs ! i))
                       (snd (cs ! (i + 1))) (fst (cs ! (i + 1))))))"
  by (subst routeLoop.simps) (cases m; auto simp: Let_def min_def)

lemma routeLoop_done: "\<not> i + 1 < length cs \<Longrightarrow> routeLoop lat lng cs i m = m"
  by (subst routeLoop.simps) simp

lemma routeLoop_Min:
  "i + 1 < length cs \<Longrightarrow>
   routeLoop lat lng cs i m =
   Fin (js_min m
          (Min ((\<lambda>j. pointToSegmentDistance lat lng (snd (cs ! j)) (fst (cs ! j))
                        (snd (cs ! (j + 1))) (fst (cs ! (j + 1)))) ` {i..<length cs - 1})))"
proof (induction "length cs - i" arbitrary: i m)
  case 0
  then show ?case by simp
next
  case (Suc k)
  let ?seg = "\<lambda>j. pointToSegmentDistance lat lng (snd (cs ! j)) (fst (cs ! j))
                      (snd (cs ! (j + 1))) (fst (cs ! (j + 1)))"
  have first: "routeLoop lat lng cs i m = routeLoop lat lng cs (i + 1) (Fin (js_min m (?seg i)))"
    using Suc.prems by (rule routeLoop_step)
  show ?case
  proof (cases "i + 2 < length cs")
    case False
    with Suc.prems have e: "{i..<length cs - 1} = {i}" by auto
    have "routeLoop lat lng cs (i + 1) (Fin (js_min m (?seg i))) = Fin (js_min m (?seg i))"
      using False by (simp add: routeLoop_done)
    with first show ?thesis by (simp only: e) simp
  next
    case True
    then have l: "(i + 1) + 1 < length cs" by simp
    have k: "k = length cs - (i + 1)" using Suc.hyps(2) by simp
    have s: "{i..<length cs - 1} = insert i {i + 1..<length cs - 1}"
      using True by auto
    have ne: "{i + 1..<length cs - 1} \<noteq> {}" using True by auto
    note first
    also have "routeLoop lat lng cs (i + 1) (Fin (js_min m (?seg i))) =
        Fin (js_min (Fin (js_min m (?seg i))) (Min (?seg ` {i + 1..<length cs - 1})))"
      using Suc.hyps(1) [OF k l] .
    also have "\<dots> = Fin (js_min m (Min (?seg ` {i..<length cs - 1})))"
    proof -
      have "Min (?seg ` insert i {i + 1..<length cs - 1}) =
            min (?seg i) (Min (?seg ` {i + 1..<length cs - 1}))"
        using ne by (simp only: image_insert) (rule Min_insert, simp_all)
      then show ?thesis
        by (cases m) (simp_all only: s js_min.simps min.assoc)
    qed
    finally show ?thesis .
  qed
qed

text \<open>
  Claim C10: pointToRouteDistance returns Infinity for a route of fewer than two
  coordinates, and otherwise the least of the distances pointToSegmentDistance from the
  point to the segments between consecutive coordinates of the route, where the segment
  number \<open>i\<close> runs from coordinate \<open>i\<close> to coordinate \<open>i + 1\<close> and a coordinate is a pair of
  longitude and latitude.
\<close>

theorem pointToRouteDistance_min:
  "(length cs < 2 \<longrightarrow> pointToRouteDistance lat lng cs = Infinity) \<and>
   (2 \<le> length cs \<longrightarrow>
      pointToRouteDistance lat lng cs =
      Fin (Min ((\<lambda>i. pointToSegmentDistance lat lng (snd (cs ! i)) (fst (cs ! i))
                        (snd (cs ! (i + 1))) (fst (cs ! (i + 1)))) `
                {0..<length cs - 1})))"
proof (cases "length cs < 2")
  case True
  then show ?thesis by (simp add: pointToRouteDistance_def routeLoop_done)
next
  case False
  then have "0 + 1 < length cs" by simp
  from routeLoop_Min [OF this] False show ?thesis
    by (simp add: pointToRouteDistance_def)
qed

text \<open>
  Routes of no, one, two and three coordinates: the last has two segments, and the
  distance is the smaller of the two segment distances.
\<close>

theorem pointToRouteDistance_min_witness:
  "pointToRouteDistance 27 85 [] = Infinity \<and>
   pointToRouteDistance 27 85 [(85, 27)] = Infinity \<and>
   pointToRouteDistance 27 85 [(84, 28), (86, 29)] =
     Fin (pointToSegmentDistance 27 85 28 84 29 86) \<and>
   pointToRouteDistance 27 85 [(84, 28), (86, 29), (87, 26)] =
     Fin (min (pointToSegmentDistance 27 85 28 84 29 86)
              (pointToSegmentDistance 27 85 29 86 26 87))"
proof -
  have a: "pointToRouteDistance 27 85 [] = Infinity"
    using pointToRouteDistance_min [of "[]" 27 85] by simp
  have b: "pointToRouteDistance 27 85 [(85, 27)] = Infinity"
    using pointToRouteDistance_min [of "[(85, 27)]" 27 85] by simp
  have c: "pointToRouteDistance 27 85 [(84, 28), (86, 29)] =
        Fin (pointToSegmentDistance 27 85 28 84 29 86)"
    using pointToRouteDistance_min [of "[(84, 28), (86, 29)]" 27 85] by simp
  have two: "{0..<Suc (Suc 0)} = {0, Suc 0}" by auto
  have d: "pointToRouteDistance 27 85 [(84, 28), (86, 29), (87, 26)] =
        Fin (min (pointToSegmentDistance 27 85 28 84 29 86)
                 (pointToSegmentDistance 27 85 29 86 26 87))"
    using pointToRouteDistance_min [of "[(84, 28), (86, 29), (87, 26)]" 27 85]
    by (simp add: two)
  from a b c d show ?thesis by simp
qed

section \<open>Lists and documents\<close>

lemma find_Some_holds: "find P xs = Some x \<Longrightarrow> P x"
  by (induction xs) (auto split: if_splits)

lemma find_Some_mem: "find P xs = Some x \<Longrightarrow> x \<in> set xs"
  by (induction xs) (auto split: if_splits)

lemma find_list_ex: "find P xs = Some x \<Longrightarrow> list_ex P xs"
  by (induction xs) (auto split: if_splits)

lemma find_None_iff_ball: "find P xs = None \<longleftrightarrow> (\<forall>x\<in>set xs. \<not> P x)"
  by (induction xs) auto

lemma find_Some_ex: "(\<exists>x. find P xs = Some x) \<longleftrightarrow> (\<exists>x\<in>set xs. P x)"
  using find_None_iff_ball [of P xs] by (cases "find P xs") auto

lemma find_updateFirst_same:
  "find P xs = Some x \<Longrightarrow> P (f x) \<Longrightarrow> find P (updateFirst P f xs) = Some (f x)"
  by (induction xs) (auto split: if_splits)

lemma find_updateFirst_conj:
  "find Q xs = Some x \<Longrightarrow> R x \<Longrightarrow> Q (g x) \<Longrightarrow>
   find Q (updateFirst (\<lambda>y. Q y \<and> R y) g xs) = Some (g x)"
  by (induction xs) (auto split: if_splits)

lemma find_distinct_key:
  "find P xs = Some p \<Longrightarrow> distinct (map g xs) \<Longrightarrow> find (\<lambda>q. g q = g p) xs = Some p"
  by (induction xs) (auto split: if_splits dest: find_Some_mem)

lemma find_saveBooking:
  "find (\<lambda>x. booking_id x = i) bs = Some b \<Longrightarrow> booking_id b' = booking_id b \<Longrightarrow>
   find (\<lambda>x. booking_id x = i) (saveBooking b' bs) = Some b'"
  by (induction bs) (auto simp: saveBooking_def split: if_splits dest: find_Some_holds)

lemma Booking_findById_save:
  assumes "Booking_findById cast bs s = Returned (Some b)" and "booking_id b' = booking_id b"
  shows "Booking_findById cast (saveBooking b' bs) s = Returned (Some b')"
  using assms
  by (auto simp: Booking_findById_def split: option.splits intro: find_saveBooking)

lemma Station_findById_id:
  "Station_findById cast sts s = Returned (Some st) \<Longrightarrow>
   find (\<lambda>x. station_id x = station_id st) sts = Some st"
  by (auto simp: Station_findById_def split: option.splits dest: find_Some_holds)

lemma portWhere_updatePort:
  assumes "portWhere sid P sts = Some q" and "P (f q)"
  shows "portWhere sid P (updatePort sid P f sts) = Some (f q)"
proof -
  from assms(1) obtain st where st: "find (\<lambda>st. station_id st = sid) sts = Some st"
    and q: "find P (chargingPorts st) = Some q"
    by (auto simp: portWhere_def split: option.splits)
  have "find (\<lambda>st. station_id st = sid)
          (updateFirst (\<lambda>st. station_id st = sid \<and> list_ex P (chargingPorts st))
             (\<lambda>st. st\<lparr>chargingPorts := updateFirst P f (chargingPorts st)\<rparr>) sts) =
        Some (st\<lparr>chargingPorts := updateFirst P f (chargingPorts st)\<rparr>)"
    using st find_list_ex [OF q] find_Some_holds [OF st]
    by (intro find_updateFirst_conj) simp_all
  then show ?thesis
    using find_updateFirst_same [where f = f, OF q assms(2)]
    by (simp add: portWhere_def updatePort_def)
qed

lemma js_Date_of_int [simp]: "js_Date (of_int k) = k"
  by (simp add: js_Date_def)

lemma js_round_nonneg: "0 \<le> x \<Longrightarrow> 0 \<le> js_round x"
  by (simp add: js_round_def)

section \<open>Double arithmetic\<close>

lemma pow2_pos: "0 < pow2 k"
  by (simp add: pow2_def)

lemma roundEven_nonneg: "0 \<le> m \<Longrightarrow> 0 \<le> roundEven m"
  by (auto simp: roundEven_def Let_def)

text \<open>Rounding to a double keeps the sign.\<close>

lemma fl_nonneg: "0 \<le> x \<Longrightarrow> 0 \<le> fl x"
proof (cases "x = 0")
  case True
  then show ?thesis by (simp add: fl_def)
next
  case False
  assume x: "0 \<le> x"
  let ?u = "pow2 (max (exponent x) (- 1022) - 52)"
  have "0 \<le> x / ?u" using x pow2_pos [of "max (exponent x) (- 1022) - 52"] by simp
  then have "0 \<le> roundEven (x / ?u)" by (rule roundEven_nonneg)
  then have "0 \<le> of_int (roundEven (x / ?u)) * ?u"
    using pow2_pos [of "max (exponent x) (- 1022) - 52"] by simp
  with False show ?thesis by (simp add: fl_def Let_def)
qed

lemma fsub_nonneg: "y \<le> x \<Longrightarrow> 0 \<le> fsub x y"
  by (simp add: fsub_def fl_nonneg)

lemma fmul_nonneg: "0 \<le> x \<Longrightarrow> 0 \<le> y \<Longrightarrow> 0 \<le> fmul x y"
  by (simp add: fmul_def fl_nonneg)

lemma fdiv_nonneg: "0 \<le> x \<Longrightarrow> 0 \<le> y \<Longrightarrow> 0 \<le> fdiv x y"
  by (simp add: fdiv_def fl_nonneg)

lemma roundEven_of_int [simp]: "roundEven (of_int n) = n"
  by (simp add: roundEven_def)

lemma exponent_of_int:
  assumes "1 \<le> k"
  shows "exponent (of_int k) = bitlen k - 1"
  using assms by (simp add: exponent_def Let_def)

lemma exponent_of_int_bounds:
  assumes "1 \<le> k" "k < 2 ^ 53"
  shows "0 \<le> exponent (of_int k)" "exponent (of_int k) \<le> 52"
proof -
  have pos: "0 < nat k" using assms by simp
  from floorlog_bounds [OF pos, of 2]
  have b: "2 ^ (floorlog 2 (nat k) - 1) \<le> nat k" by simp
  have f1: "1 \<le> floorlog 2 (nat k)"
    using pos floorlog_eq_zero_iff [of 2 "nat k"] by (cases "floorlog 2 (nat k)") simp_all
  show "0 \<le> exponent (of_int k)"
    using f1 by (simp add: exponent_of_int [OF assms(1)] bitlen_def)
  have "nat k < 2 ^ 53"
    using assms by (simp add: nat_less_iff)
  with b have "(2::nat) ^ (floorlog 2 (nat k) - 1) < 2 ^ 53"
    by (rule le_less_trans)
  then have "floorlog 2 (nat k) - 1 < 53"
    by (simp only: power_strict_increasing_iff)
  then show "exponent (of_int k) \<le> 52"
    using f1 by (simp add: exponent_of_int [OF assms(1)] bitlen_def)
qed

lemma exponent_abs: "exponent (of_int \<bar>k\<bar>) = exponent (of_int k)"
  by (simp add: exponent_def)

text \<open>An integer below \<open>2 ^ 53\<close> in magnitude is a double.\<close>

lemma fl_of_int:
  assumes "\<bar>k\<bar> < 2 ^ 53"
  shows "fl (of_int k) = of_int k"
proof (cases "k = 0")
  case True
  then show ?thesis by (simp add: fl_def)
next
  case False
  let ?e = "exponent (of_int k)"
  from False have "1 \<le> \<bar>k\<bar>" by simp
  from exponent_of_int_bounds [OF this assms]
  have eb: "0 \<le> ?e" "?e \<le> 52" by (simp_all only: exponent_abs)
  have m: "max ?e (- 1022) - 52 = - int (nat (52 - ?e))" using eb by simp
  have u: "pow2 (max ?e (- 1022) - 52) = 1 / 2 ^ nat (52 - ?e)"
    unfolding m by (simp add: pow2_def)
  have "of_int k / pow2 (max ?e (- 1022) - 52) = (of_int (k * 2 ^ nat (52 - ?e)) :: rat)"
    unfolding u by simp
  then have "roundEven (of_int k / pow2 (max ?e (- 1022) - 52)) = k * 2 ^ nat (52 - ?e)"
    by (simp only: roundEven_of_int)
  then show ?thesis
    using False by (simp add: fl_def Let_def u)
qed

text \<open>
  The quotient and the product are rounded one after the other: 123 minutes at 30 rupees
  an hour are \<open>2.05 * 30\<close>, which as doubles is just below 61.5 and rounds to 61, where
  the exact product 61.5 would round to 62. One tenth is not a double.
\<close>

lemma double_rounding_examples:
  "js_round (fmul (fdiv 123 60) 30) = 61"
  "js_round (123 / 60 * 30) = 62"
  "js_round (fmul (fdiv 45 60) 200) = 150"
  "fl (1 / 10) = 3602879701896397 / 36028797018963968"
  "fadd (fl (1 / 10)) (fl (2 / 10)) \<noteq> fl (3 / 10)"
  by code_simp+

section \<open>Walk-in check-in\<close>

lemma checkinDuration_cases:
  "checkinDuration None = 60"
  "checkinDuration (Some 0) = 60"
  "n \<noteq> 0 \<Longrightarrow> checkinDuration (Some n) = max 30 (min n 480)"
  "30 \<le> checkinDuration x" "checkinDuration x \<le> 480"
  by (auto simp: checkinDuration_def split: option.splits)

lemma checkin_created:
  assumes "fst (POST_walkin_checkin e r d) = 201"
  shows "\<exists>st port b.
           Station_findById (toObjectId e) (stations d) (cr_stationId r) = Returned (Some st) \<and>
           find (\<lambda>p. idString (port_id p) = cr_portId r \<or> portNumber p = cr_portId r)
             (chargingPorts st) = Some port \<and>
           portStatus port = Available \<and>
           bookings (snd (POST_walkin_checkin e r d)) = bookings d @ [b] \<and>
           status b = Active \<and> source b = WalkInQr \<and>
           startTime b = dateNow e \<and>
           estimatedDuration b = checkinDuration (cr_estimatedDuration r) \<and>
           endTime b = js_Date (fadd (of_int (dateNow e))
                         (fmul (checkinDuration (cr_estimatedDuration r)) 60000)) \<and>
           amountPaid b =
             of_int (js_round (fmul (fdiv (checkinDuration (cr_estimatedDuration r)) 60)
                       (case modelPerHour (perHour st) of None \<Rightarrow> 200 | Some x \<Rightarrow> x)))"
  using assms
  by (auto simp: POST_walkin_checkin_def Let_def
        split: if_splits outcome.splits option.splits)

lemma checkin_conflict:
  assumes "cr_stationId r \<noteq> []" "cr_portId r \<noteq> []"
    and "cr_customerName r \<noteq> []" "cr_customerPhone r \<noteq> []"
    and "Station_findById (toObjectId e) (stations d) (cr_stationId r) = Returned (Some st)"
    and "find (\<lambda>p. idString (port_id p) = cr_portId r \<or> portNumber p = cr_portId r)
           (chargingPorts st) = Some port"
    and "portStatus port \<noteq> Available"
  shows "POST_walkin_checkin e r d = (409, d)"
  using assms by (simp add: POST_walkin_checkin_def)

lemma checkin_occupies:
  assumes "cr_stationId r \<noteq> []" "cr_portId r \<noteq> []"
    and "cr_customerName r \<noteq> []" "cr_customerPhone r \<noteq> []"
    and st: "Station_findById (toObjectId e) (stations d) (cr_stationId r) = Returned (Some st)"
    and port: "find (\<lambda>p. idString (port_id p) = cr_portId r \<or> portNumber p = cr_portId r)
           (chargingPorts st) = Some port"
    and "portStatus port = Available"
    and dist: "distinct (map port_id (chargingPorts st))"
  shows "fst (POST_walkin_checkin e r d) = 201"
    and "portWhere (station_id st) (\<lambda>q. port_id q = port_id port)
           (stations (snd (POST_walkin_checkin e r d))) =
         Some (port\<lparr>portStatus := Occupied, currentBookingId := Some (createdId e)\<rparr>)"
proof -
  show "fst (POST_walkin_checkin e r d) = 201"
    using assms by (simp add: POST_walkin_checkin_def Let_def)
  have "portWhere (station_id st) (\<lambda>q. port_id q = port_id port) (stations d) = Some port"
    using Station_findById_id [OF st] find_distinct_key [OF port dist]
    by (simp add: portWhere_def)
  then have "portWhere (station_id st) (\<lambda>q. port_id q = port_id port)
          (updatePort (station_id st) (\<lambda>q. port_id q = port_id port)
             (\<lambda>q. q\<lparr>portStatus := Occupied, currentBookingId := Some (createdId e)\<rparr>)
             (stations d)) =
        Some (port\<lparr>portStatus := Occupied, currentBookingId := Some (createdId e)\<rparr>)"
    by (rule portWhere_updatePort) simp
  then show "portWhere (station_id st) (\<lambda>q. port_id q = port_id port)
           (stations (snd (POST_walkin_checkin e r d))) =
         Some (port\<lparr>portStatus := Occupied, currentBookingId := Some (createdId e)\<rparr>)"
    using assms by (simp add: POST_walkin_checkin_def Let_def)
qed

text \<open>
  What the check-in stores. The requested duration is taken into the range from 30 to 480
  minutes, with 60 when it is missing, not numeric or zero. The booking starts now and
  ends after that duration: a fraction of a millisecond is dropped, and for a duration of
  whole milliseconds the end is the start plus the duration. The amount is
  \<^verbatim>\<open>Math.round((duration / 60) * perHour)\<close> on doubles, where \<^verbatim>\<open>perHour\<close> is the rate the
  station has stored, 0 for a station stored without a rate, and 200 for a station
  whose stored rate is \<^verbatim>\<open>null\<close>.
\<close>

theorem checkin_duration_endTime_amount:
  assumes "fst (POST_walkin_checkin e r d) = 201"
  shows "\<exists>st b dur.
           Station_findById (toObjectId e) (stations d) (cr_stationId r) = Returned (Some st) \<and>
           bookings (snd (POST_walkin_checkin e r d)) = bookings d @ [b] \<and>
           status b = Active \<and> estimatedDuration b = dur \<and>
           30 \<le> dur \<and> dur \<le> 480 \<and>
           (cr_estimatedDuration r = None \<or> cr_estimatedDuration r = Some 0 \<longrightarrow> dur = 60) \<and>
           (\<forall>n. cr_estimatedDuration r = Some n \<and> n \<noteq> 0 \<longrightarrow> dur = max 30 (min n 480)) \<and>
           startTime b = dateNow e \<and>
           endTime b = js_Date (fadd (of_int (startTime b)) (fmul dur 60000)) \<and>
           (\<forall>m. dur * 60000 = of_int m \<and> \<bar>dateNow e + m\<bar> < 2 ^ 53 \<longrightarrow>
                endTime b = startTime b + m) \<and>
           (\<forall>x. perHour st = Rate x \<longrightarrow>
                amountPaid b = of_int (js_round (fmul (fdiv dur 60) x))) \<and>
           (perHour st = NoRate \<longrightarrow> amountPaid b = 0) \<and>
           (perHour st = NullRate \<longrightarrow>
              amountPaid b = of_int (js_round (fmul (fdiv dur 60) 200)))"
proof -
  from checkin_created [OF assms] obtain st port b where
    st: "Station_findById (toObjectId e) (stations d) (cr_stationId r) = Returned (Some st)"
    and b: "bookings (snd (POST_walkin_checkin e r d)) = bookings d @ [b]"
      "status b = Active" "startTime b = dateNow e"
      "estimatedDuration b = checkinDuration (cr_estimatedDuration r)"
      "endTime b = js_Date (fadd (of_int (dateNow e))
                     (fmul (checkinDuration (cr_estimatedDuration r)) 60000))"
    and amt: "amountPaid b =
        of_int (js_round (fmul (fdiv (checkinDuration (cr_estimatedDuration r)) 60)
                  (case modelPerHour (perHour st) of None \<Rightarrow> 200 | Some x \<Rightarrow> x)))"
    by blast
  let ?dur = "checkinDuration (cr_estimatedDuration r)"
  have range: "30 \<le> ?dur" "?dur \<le> 480"
    by (rule checkinDuration_cases(4), rule checkinDuration_cases(5))
  have whole: "\<forall>m. ?dur * 60000 = of_int m \<and> \<bar>dateNow e + m\<bar> < 2 ^ 53 \<longrightarrow>
                   endTime b = startTime b + m"
  proof (intro allI impI, elim conjE)
    fix m :: int
    assume m: "?dur * 60000 = of_int m" and small: "\<bar>dateNow e + m\<bar> < 2 ^ 53"
    have "(of_int m :: rat) \<le> 480 * 60000" "(0 :: rat) \<le> of_int m"
      using range by (simp_all add: m [symmetric])
    then have "m \<le> 28800000" "0 \<le> m" by simp_all
    then have "\<bar>m\<bar> < 2 ^ 53" by simp
    then have "fmul ?dur 60000 = of_int m"
      by (simp add: fmul_def m fl_of_int)
    then have "fadd (of_int (dateNow e)) (fmul ?dur 60000) = fl (of_int (dateNow e + m))"
      by (simp add: fadd_def)
    also have "\<dots> = of_int (dateNow e + m)"
      using small by (rule fl_of_int)
    finally show "endTime b = startTime b + m"
      using b(3,5) by (simp only: js_Date_of_int)
  qed
  have dflt: "cr_estimatedDuration r = None \<or> cr_estimatedDuration r = Some 0 \<longrightarrow> ?dur = 60"
    using checkinDuration_cases(1,2) by auto
  have clamp: "\<forall>n. cr_estimatedDuration r = Some n \<and> n \<noteq> 0 \<longrightarrow> ?dur = max 30 (min n 480)"
    using checkinDuration_cases(3) by auto
  have rate: "\<forall>x. perHour st = Rate x \<longrightarrow>
                amountPaid b = of_int (js_round (fmul (fdiv ?dur 60) x))"
    using amt by (simp add: modelPerHour_def)
  have zero: "perHour st = NoRate \<longrightarrow> amountPaid b = 0"
  proof
    assume n: "perHour st = NoRate"
    have "fmul (fdiv ?dur 60) 0 = 0" by (simp add: fmul_def fl_def)
    moreover have "js_round 0 = 0" by code_simp
    ultimately show "amountPaid b = 0" using amt n by (simp add: modelPerHour_def)
  qed
  have null: "perHour st = NullRate \<longrightarrow>
                amountPaid b = of_int (js_round (fmul (fdiv ?dur 60) 200))"
    using amt by (simp add: modelPerHour_def)
  show ?thesis
    using st b whole dflt clamp range rate zero null
    by (intro exI [of _ st] exI [of _ b] exI [of _ ?dur]) simp
qed

text \<open>
  A check-in for 45 minutes at the example station, whose rate is 200: 2 700 000 ms and
  150 rupees.
\<close>

theorem checkin_duration_endTime_amount_witness:
  "fst (POST_walkin_checkin demoEnv (demoCheckin (Some 45)) demoDb) = 201 \<and>
   (\<exists>b. bookings (snd (POST_walkin_checkin demoEnv (demoCheckin (Some 45)) demoDb)) = [b] \<and>
        estimatedDuration b = 45 \<and> endTime b = startTime b + 2700000 \<and> amountPaid b = 150)"
proof -
  have ok: "fst (POST_walkin_checkin demoEnv (demoCheckin (Some 45)) demoDb) = 201"
    by code_simp
  have st: "Station_findById (toObjectId demoEnv) (stations demoDb)
              (cr_stationId (demoCheckin (Some 45))) = Returned (Some demoStation)"
    by code_simp
  from checkin_duration_endTime_amount [OF ok] st obtain b dur where
    b: "bookings (snd (POST_walkin_checkin demoEnv (demoCheckin (Some 45)) demoDb)) =
          bookings demoDb @ [b]"
      "estimatedDuration b = dur"
      "\<forall>n. cr_estimatedDuration (demoCheckin (Some 45)) = Some n \<and> n \<noteq> 0 \<longrightarrow>
           dur = max 30 (min n 480)"
      "\<forall>m. dur * 60000 = of_int m \<and> \<bar>dateNow demoEnv + m\<bar> < 2 ^ 53 \<longrightarrow>
           endTime b = startTime b + m"
      "\<forall>x. perHour demoStation = Rate x \<longrightarrow>
           amountPaid b = of_int (js_round (fmul (fdiv dur 60) x))"
    by auto
  from b(3) have dur: "dur = 45" by (simp add: demoCheckin_def)
  have "dur * 60000 = of_int 2700000" using dur by simp
  moreover have "\<bar>dateNow demoEnv + 2700000\<bar> < 2 ^ 53" by (simp add: demoEnv_def)
  ultimately have e: "endTime b = startTime b + 2700000" using b(4) by blast
  have "js_round (fmul (fdiv 45 60) 200) = 150" by code_simp
  moreover have "perHour demoStation = Rate 200" by (simp add: demoStation_def)
  ultimately have a: "amountPaid b = 150" using b(5) dur by simp
  from ok b(1,2) dur e a show ?thesis by (simp add: demoDb_def)
qed

text \<open>
  Claim C9 asks for the amount round(duration / 60 * rate) with the rate 200 for a
  station that has no pricing. The handler reads the rate with
  \<^verbatim>\<open>station.pricing?.perHour ?? 200\<close> from a document of the \<^verbatim>\<open>Station\<close> model, whose schema
  gives \<^verbatim>\<open>perHour\<close> the default 0, and 0 is not replaced by \<^verbatim>\<open>??\<close>: at a station stored
  without pricing a check-in for 60 minutes is answered 201 and stores the amount 0, not
  200. The stop action of the administrator reads the same rate with \<^verbatim>\<open>|| 200\<close> and bills
  the same station at 200 an hour. Two further readings of the claim differ from the
  handler: the requested duration 0 is numeric and gives 60 minutes rather than the
  clamped 30, and the amount is rounded from a quotient and a product of doubles, so
  that 123 minutes at 30 an hour give 61 where the exact 61.5 rounds to 62.
\<close>

theorem checkin_unpriced_station_amount:
  "perHour demoStationUnpriced = NoRate \<and>
   stations demoDbUnpriced = [demoStationUnpriced] \<and>
   fst (POST_walkin_checkin demoEnv (demoCheckin (Some 60)) demoDbUnpriced) = 201 \<and>
   map estimatedDuration
     (bookings (snd (POST_walkin_checkin demoEnv (demoCheckin (Some 60)) demoDbUnpriced))) =
     [60] \<and>
   map amountPaid
     (bookings (snd (POST_walkin_checkin demoEnv (demoCheckin (Some 60)) demoDbUnpriced))) =
     [0] \<and>
   js_round (60 / 60 * 200) = 200 \<and>
   stopRate (Some demoStationUnpriced) = 200 \<and>
   fst (POST_walkin_checkin demoEnv (demoCheckin (Some 0)) demoDb) = 201 \<and>
   map estimatedDuration
     (bookings (snd (POST_walkin_checkin demoEnv (demoCheckin (Some 0)) demoDb))) = [60] \<and>
   max 30 (min (0::rat) 480) = 30 \<and>
   perHour demoStationCheap = Rate 30 \<and>
   fst (POST_walkin_checkin demoEnv (demoCheckin (Some 123)) demoDbCheap) = 201 \<and>
   map amountPaid
     (bookings (snd (POST_walkin_checkin demoEnv (demoCheckin (Some 123)) demoDbCheap))) =
     [61] \<and>
   js_round (123 / 60 * 30) = 62"
  by code_simp

section \<open>Starting a walk-in session\<close>

lemma activeWalkin_walkinOn:
  "activeWalkin
     (case toObjectId e (wr_stationId r) of
        Some i \<Rightarrow> [ObjId i, StrId (wr_stationId r)] | None \<Rightarrow> [StrId (wr_stationId r)])
     (case toObjectId e (wr_portId r) of
        Some p \<Rightarrow> [ObjId p, StrId (wr_portId r)] | None \<Rightarrow> [StrId (wr_portId r)]) b
   \<longleftrightarrow> walkinOn e r b"
  by (auto simp: activeWalkin_def walkinOn_def split: option.splits)

lemma admin_dispatch_start:
  assumes "authUserId e \<noteq> []"
    and "find (\<lambda>u. clerkId u = authUserId e) (users d) = Some u"
    and "role u = Admin \<or> role u = Superadmin"
    and "wr_action r = ''start''"
  shows "POST_admin_walkin e r d = walkin_start e r u d"
  using assms by (auto simp: POST_admin_walkin_def Let_def)

lemma start_conflict:
  assumes "wr_stationId r \<noteq> []" "wr_portId r \<noteq> []"
    and "findStation (toObjectId e (wr_stationId r)) (stations d) = Some st"
    and "role u = Admin \<longrightarrow> adminId st = Some (authUserId e)"
    and "\<exists>b\<in>set (bookings d). walkinOn e r b"
  shows "walkin_start e r u d = (409, d)"
proof -
  let ?Q = "activeWalkin
       (case toObjectId e (wr_stationId r) of
          Some i \<Rightarrow> [ObjId i, StrId (wr_stationId r)] | None \<Rightarrow> [StrId (wr_stationId r)])
       (case toObjectId e (wr_portId r) of
          Some p \<Rightarrow> [ObjId p, StrId (wr_portId r)] | None \<Rightarrow> [StrId (wr_portId r)])"
  have "\<exists>b\<in>set (bookings d). ?Q b"
    using assms(5) by (simp only: activeWalkin_walkinOn)
  then obtain x where "find ?Q (bookings d) = Some x"
    using find_Some_ex [of ?Q "bookings d"] by blast
  then show ?thesis
    using assms(1-4) by (auto simp: walkin_start_def Let_def)
qed

lemma start_created:
  assumes "wr_stationId r \<noteq> []" "wr_portId r \<noteq> []"
    and st: "findStation (toObjectId e (wr_stationId r)) (stations d) = Some st"
    and "role u = Admin \<longrightarrow> adminId st = Some (authUserId e)"
    and free: "\<not> (\<exists>b\<in>set (bookings d). walkinOn e r b)"
  shows "fst (walkin_start e r u d) = 201"
    and "\<exists>b. bookings (snd (walkin_start e r u d)) = bookings d @ [b] \<and>
             status b = Active \<and> source b = WalkInManual \<and> amountPaid b = 0"
    and "toObjectId e (wr_portId r) = None \<longrightarrow>
           stations (snd (walkin_start e r u d)) = stations d"
    and "\<forall>p q. toObjectId e (wr_portId r) = Some p \<and>
               portOf (station_id st) p (stations d) = Some q \<longrightarrow>
               portOf (station_id st) p (stations (snd (walkin_start e r u d))) =
               Some (q\<lparr>portStatus := Occupied\<rparr>)"
proof -
  have none: "find (activeWalkin
       (case toObjectId e (wr_stationId r) of
          Some i \<Rightarrow> [ObjId i, StrId (wr_stationId r)] | None \<Rightarrow> [StrId (wr_stationId r)])
       (case toObjectId e (wr_portId r) of
          Some p \<Rightarrow> [ObjId p, StrId (wr_portId r)] | None \<Rightarrow> [StrId (wr_portId r)]))
       (bookings d) = None"
    using free by (simp add: find_None_iff_ball activeWalkin_walkinOn)
  show "fst (walkin_start e r u d) = 201"
    using assms(1-4) none by (auto simp: walkin_start_def Let_def split: option.splits)
  show "\<exists>b. bookings (snd (walkin_start e r u d)) = bookings d @ [b] \<and>
             status b = Active \<and> source b = WalkInManual \<and> amountPaid b = 0"
    using assms(1-4) none by (auto simp: walkin_start_def Let_def split: option.splits)
  show "toObjectId e (wr_portId r) = None \<longrightarrow>
           stations (snd (walkin_start e r u d)) = stations d"
    using assms(1-4) none by (auto simp: walkin_start_def Let_def split: option.splits)
  show "\<forall>p q. toObjectId e (wr_portId r) = Some p \<and>
               portOf (station_id st) p (stations d) = Some q \<longrightarrow>
               portOf (station_id st) p (stations (snd (walkin_start e r u d))) =
               Some (q\<lparr>portStatus := Occupied\<rparr>)"
  proof (intro allI impI, elim conjE)
    fix p q
    assume p: "toObjectId e (wr_portId r) = Some p"
      and q: "portOf (station_id st) p (stations d) = Some q"
    from q have pq: "port_id q = Some p"
      by (auto simp: portOf_def portWhere_def split: option.splits dest: find_Some_holds)
    have "portWhere (station_id st) (\<lambda>q. port_id q = Some p)
            (updatePort (station_id st) (\<lambda>q. port_id q = Some p)
               (\<lambda>q. q\<lparr>portStatus := Occupied\<rparr>) (stations d)) =
          Some (q\<lparr>portStatus := Occupied\<rparr>)"
      using q pq by (intro portWhere_updatePort) (simp_all add: portOf_def)
    then show "portOf (station_id st) p (stations (snd (walkin_start e r u d))) =
               Some (q\<lparr>portStatus := Occupied\<rparr>)"
      using assms(1-4) none p
      by (auto simp: walkin_start_def Let_def portOf_def split: option.splits)
  qed
qed

text \<open>
  Claim C4, as amended. The public QR check-in answers 409 when the status of the port is
  not "available"; otherwise it creates an active booking whose amount is the estimate
  for the requested duration, and sets the port to "occupied" with the booking as its
  current one. The admin start action does not read the status of the port: it answers
  409 when an active walk-in booking is stored for the station and port, and otherwise
  creates an active booking with the amount 0; it sets the port to "occupied" when the
  port identifier is an ObjectId of a port of the station, and leaves the stations as
  they are when the identifier is not an ObjectId.
\<close>

theorem walkin_start_behaviour:
  "(cr_stationId r \<noteq> [] \<and> cr_portId r \<noteq> [] \<and>
    cr_customerName r \<noteq> [] \<and> cr_customerPhone r \<noteq> [] \<and>
    Station_findById (toObjectId e) (stations d) (cr_stationId r) = Returned (Some st) \<and>
    find (\<lambda>p. idString (port_id p) = cr_portId r \<or> portNumber p = cr_portId r)
      (chargingPorts st) = Some port \<and>
    distinct (map port_id (chargingPorts st)) \<longrightarrow>
      (portStatus port \<noteq> Available \<longrightarrow> POST_walkin_checkin e r d = (409, d)) \<and>
      (portStatus port = Available \<longrightarrow>
         fst (POST_walkin_checkin e r d) = 201 \<and>
         (\<exists>b. bookings (snd (POST_walkin_checkin e r d)) = bookings d @ [b] \<and>
              status b = Active \<and> source b = WalkInQr \<and>
              amountPaid b =
                of_int (js_round (fmul (fdiv (checkinDuration (cr_estimatedDuration r)) 60)
                          (case modelPerHour (perHour st) of None \<Rightarrow> 200 | Some x \<Rightarrow> x)))) \<and>
         portWhere (station_id st) (\<lambda>q. port_id q = port_id port)
           (stations (snd (POST_walkin_checkin e r d))) =
         Some (port\<lparr>portStatus := Occupied, currentBookingId := Some (createdId e)\<rparr>))) \<and>
   (authUserId e \<noteq> [] \<and> find (\<lambda>u. clerkId u = authUserId e) (users d) = Some u \<and>
    (role u = Admin \<or> role u = Superadmin) \<and> wr_action w = ''start'' \<and>
    wr_stationId w \<noteq> [] \<and> wr_portId w \<noteq> [] \<and>
    findStation (toObjectId e (wr_stationId w)) (stations d) = Some st' \<and>
    (role u = Admin \<longrightarrow> adminId st' = Some (authUserId e)) \<longrightarrow>
      ((\<exists>b\<in>set (bookings d). walkinOn e w b) \<longrightarrow> POST_admin_walkin e w d = (409, d)) \<and>
      (\<not> (\<exists>b\<in>set (bookings d). walkinOn e w b) \<longrightarrow>
         fst (POST_admin_walkin e w d) = 201 \<and>
         (\<exists>b. bookings (snd (POST_admin_walkin e w d)) = bookings d @ [b] \<and>
              status b = Active \<and> source b = WalkInManual \<and> amountPaid b = 0) \<and>
         (toObjectId e (wr_portId w) = None \<longrightarrow>
            stations (snd (POST_admin_walkin e w d)) = stations d) \<and>
         (\<forall>p q. toObjectId e (wr_portId w) = Some p \<and>
                portOf (station_id st') p (stations d) = Some q \<longrightarrow>
                portOf (station_id st') p (stations (snd (POST_admin_walkin e w d))) =
                Some (q\<lparr>portStatus := Occupied\<rparr>))))"
proof (intro conjI impI; (elim conjE)?)
  assume a: "cr_stationId r \<noteq> []" "cr_portId r \<noteq> []"
    "cr_customerName r \<noteq> []" "cr_customerPhone r \<noteq> []"
    "Station_findById (toObjectId e) (stations d) (cr_stationId r) = Returned (Some st)"
    "find (\<lambda>p. idString (port_id p) = cr_portId r \<or> portNumber p = cr_portId r)
      (chargingPorts st) = Some port"
  {
    assume "portStatus port \<noteq> Available"
    with a show "POST_walkin_checkin e r d = (409, d)" by (rule checkin_conflict)
  }
  assume dist: "distinct (map port_id (chargingPorts st))" and av: "portStatus port = Available"
  from checkin_occupies [OF a av dist]
  show ok: "fst (POST_walkin_checkin e r d) = 201"
    and "portWhere (station_id st) (\<lambda>q. port_id q = port_id port)
           (stations (snd (POST_walkin_checkin e r d))) =
         Some (port\<lparr>portStatus := Occupied, currentBookingId := Some (createdId e)\<rparr>)"
    by simp_all
  from checkin_created [OF ok] a(5)
  show "\<exists>b. bookings (snd (POST_walkin_checkin e r d)) = bookings d @ [b] \<and>
              status b = Active \<and> source b = WalkInQr \<and>
              amountPaid b =
                of_int (js_round (fmul (fdiv (checkinDuration (cr_estimatedDuration r)) 60)
                          (case modelPerHour (perHour st) of None \<Rightarrow> 200 | Some x \<Rightarrow> x)))"
    by auto
next
  assume b: "authUserId e \<noteq> []" "find (\<lambda>u. clerkId u = authUserId e) (users d) = Some u"
    "role u = Admin \<or> role u = Superadmin" "wr_action w = ''start''"
    and c: "wr_stationId w \<noteq> []" "wr_portId w \<noteq> []"
    "findStation (toObjectId e (wr_stationId w)) (stations d) = Some st'"
    "role u = Admin \<longrightarrow> adminId st' = Some (authUserId e)"
  note eq = admin_dispatch_start [OF b]
  {
    assume "\<exists>b\<in>set (bookings d). walkinOn e w b"
    with c show "POST_admin_walkin e w d = (409, d)"
      unfolding eq by (rule start_conflict)
  }
  assume free: "\<not> (\<exists>b\<in>set (bookings d). walkinOn e w b)"
  from start_created [OF c free, of ]
  show "fst (POST_admin_walkin e w d) = 201"
    and "\<exists>b. bookings (snd (POST_admin_walkin e w d)) = bookings d @ [b] \<and>
              status b = Active \<and> source b = WalkInManual \<and> amountPaid b = 0"
    and "toObjectId e (wr_portId w) = None \<Longrightarrow>
            stations (snd (POST_admin_walkin e w d)) = stations d"
    and "\<forall>p q. toObjectId e (wr_portId w) = Some p \<and>
                portOf (station_id st') p (stations d) = Some q \<longrightarrow>
                portOf (station_id st') p (stations (snd (POST_admin_walkin e w d))) =
                Some (q\<lparr>portStatus := Occupied\<rparr>)"
    unfolding eq by simp_all
qed

text \<open>
  Both paths at the example station: a check-in at the first port and an admin start at
  the second.
\<close>

theorem walkin_start_behaviour_witness:
  "fst (POST_walkin_checkin demoAdminEnv (demoCheckin (Some 45)) demoDb) = 201 \<and>
   portWhere (station_id demoStation) (\<lambda>q. port_id q = port_id demoPort1)
     (stations (snd (POST_walkin_checkin demoAdminEnv (demoCheckin (Some 45)) demoDb))) =
   Some (demoPort1\<lparr>portStatus := Occupied, currentBookingId := Some (createdId demoAdminEnv)\<rparr>) \<and>
   fst (POST_admin_walkin demoAdminEnv (demoStart ''64b000000000000000000a02'') demoDb) = 201 \<and>
   portOf (station_id demoStation) ''64b000000000000000000a02''
     (stations (snd (POST_admin_walkin demoAdminEnv
                       (demoStart ''64b000000000000000000a02'') demoDb))) =
   Some (demoPort2\<lparr>portStatus := Occupied\<rparr>)"
proof -
  let ?r = "demoCheckin (Some 45)" and ?w = "demoStart ''64b000000000000000000a02''"
  have h1: "cr_stationId ?r \<noteq> [] \<and> cr_portId ?r \<noteq> [] \<and>
      cr_customerName ?r \<noteq> [] \<and> cr_customerPhone ?r \<noteq> [] \<and>
      Station_findById (toObjectId demoAdminEnv) (stations demoDb) (cr_stationId ?r) =
        Returned (Some demoStation) \<and>
      find (\<lambda>p. idString (port_id p) = cr_portId ?r \<or> portNumber p = cr_portId ?r)
        (chargingPorts demoStation) = Some demoPort1 \<and>
      distinct (map port_id (chargingPorts demoStation))"
    by code_simp
  have h2: "portStatus demoPort1 = Available"
    by code_simp
  have h3: "authUserId demoAdminEnv \<noteq> [] \<and>
      find (\<lambda>u. clerkId u = authUserId demoAdminEnv) (users demoDb) = Some demoAdmin \<and>
      (role demoAdmin = Admin \<or> role demoAdmin = Superadmin) \<and> wr_action ?w = ''start'' \<and>
      wr_stationId ?w \<noteq> [] \<and> wr_portId ?w \<noteq> [] \<and>
      findStation (toObjectId demoAdminEnv (wr_stationId ?w)) (stations demoDb) =
        Some demoStation \<and>
      (role demoAdmin = Admin \<longrightarrow> adminId demoStation = Some (authUserId demoAdminEnv))"
    by code_simp
  have h4: "\<not> (\<exists>b\<in>set (bookings demoDb). walkinOn demoAdminEnv ?w b)"
    by (simp add: demoDb_def)
  have h5: "toObjectId demoAdminEnv (wr_portId ?w) = Some ''64b000000000000000000a02'' \<and>
      portOf (station_id demoStation) ''64b000000000000000000a02'' (stations demoDb) =
        Some demoPort2"
    by code_simp
  from walkin_start_behaviour [where r = ?r and e = demoAdminEnv and d = demoDb
      and st = demoStation and port = demoPort1 and u = demoAdmin and w = ?w
      and st' = demoStation] h1 h2 h3 h4 h5
  show ?thesis by blast
qed

text \<open>
  Claim C4 as stated fails on both paths: the booking of a QR check-in for the default
  hour carries the amount 200, not 0, and the admin start succeeds on a port whose
  status is "maintenance".
\<close>

theorem walkin_start_counterexample:
  "fst (POST_walkin_checkin demoEnv (demoCheckin None) demoDb) = 201 \<and>
   map amountPaid (bookings (snd (POST_walkin_checkin demoEnv (demoCheckin None) demoDb))) = [200] \<and>
   portOf ''64b000000000000000000001'' ''64b000000000000000000a02'' (stations demoDb) =
     Some demoPort2 \<and>
   portStatus demoPort2 = Maintenance \<and>
   fst (POST_admin_walkin demoAdminEnv (demoStart ''64b000000000000000000a02'') demoDb) = 201"
  by code_simp

section \<open>Stopping a walk-in session\<close>

lemma admin_dispatch_stop:
  assumes "authUserId e \<noteq> []"
    and "find (\<lambda>u. clerkId u = authUserId e) (users d) = Some u"
    and "role u = Admin \<or> role u = Superadmin"
    and "wr_action r = ''stop''"
  shows "POST_admin_walkin e r d = walkin_stop e r u d"
  using assms by (auto simp: POST_admin_walkin_def Let_def)

lemma stop_completed:
  assumes "wr_bookingId r \<noteq> []"
    and fb: "Booking_findById (toObjectId e) (bookings d) (wr_bookingId r) = Returned (Some b)"
    and "status b = Active"
    and "role u = Admin \<longrightarrow>
           (\<exists>s. findStation (toObjectId e (js_String (stationId b))) (stations d) = Some s \<and>
                adminId s = Some (authUserId e))"
  shows "fst (walkin_stop e r u d) = 200"
    and "bookings (snd (walkin_stop e r u d)) =
           saveBooking
             (b\<lparr>endTime := dateNow e,
                estimatedDuration :=
                  of_int (max 1 (js_round (fdiv (fsub (of_int (dateNow e)) (of_int (startTime b))) 60000))),
                amountPaid :=
                  of_int (js_round (fmul (fdiv (fsub (of_int (dateNow e)) (of_int (startTime b))) 3600000)
                     (stopRate (findStation (toObjectId e (js_String (stationId b)))
                                 (stations d))))),
                status := Completed\<rparr>) (bookings d)"
    and "\<forall>i p q. toObjectId e (js_String (stationId b)) = Some i \<and>
                 toObjectId e (js_String (portId b)) = Some p \<and>
                 portOf i p (stations d) = Some q \<longrightarrow>
                 portOf i p (stations (snd (walkin_stop e r u d))) =
                 Some (q\<lparr>portStatus := Available\<rparr>)"
proof -
  show "fst (walkin_stop e r u d) = 200"
    using assms by (auto simp: walkin_stop_def Let_def split: option.splits)
  show "bookings (snd (walkin_stop e r u d)) =
           saveBooking
             (b\<lparr>endTime := dateNow e,
                estimatedDuration :=
                  of_int (max 1 (js_round (fdiv (fsub (of_int (dateNow e)) (of_int (startTime b))) 60000))),
                amountPaid :=
                  of_int (js_round (fmul (fdiv (fsub (of_int (dateNow e)) (of_int (startTime b))) 3600000)
                     (stopRate (findStation (toObjectId e (js_String (stationId b)))
                                 (stations d))))),
                status := Completed\<rparr>) (bookings d)"
    using assms by (auto simp: walkin_stop_def Let_def split: option.splits)
  show "\<forall>i p q. toObjectId e (js_String (stationId b)) = Some i \<and>
                 toObjectId e (js_String (portId b)) = Some p \<and>
                 portOf i p (stations d) = Some q \<longrightarrow>
                 portOf i p (stations (snd (walkin_stop e r u d))) =
                 Some (q\<lparr>portStatus := Available\<rparr>)"
  proof (intro allI impI, elim conjE)
    fix i p q
    assume i: "toObjectId e (js_String (stationId b)) = Some i"
      and p: "toObjectId e (js_String (portId b)) = Some p"
      and q: "portOf i p (stations d) = Some q"
    from q have pq: "port_id q = Some p"
      by (auto simp: portOf_def portWhere_def split: option.splits dest: find_Some_holds)
    have "portWhere i (\<lambda>q. port_id q = Some p)
            (updatePort i (\<lambda>q. port_id q = Some p)
               (\<lambda>q. q\<lparr>portStatus := Available\<rparr>) (stations d)) =
          Some (q\<lparr>portStatus := Available\<rparr>)"
      using q pq by (intro portWhere_updatePort) (simp_all add: portOf_def)
    then show "portOf i p (stations (snd (walkin_stop e r u d))) =
               Some (q\<lparr>portStatus := Available\<rparr>)"
      using assms i p
      by (auto simp: walkin_stop_def Let_def portOf_def split: option.splits)
  qed
qed

text \<open>
  Claim C5, as amended: a stop of an active booking by an authorised administrator
  answers 200 and stores the booking as completed, ended now, with a duration of at
  least one minute (the elapsed minutes, rounded, and 1 when that is less) and with the
  amount of the elapsed hours times the hourly rate, rounded (the difference, the
  quotients and the product are those of doubles); the amount is not negative
  when the booking started no later than now and the rate is not negative; and the port
  is set to "available" when the station and port references of the booking are
  ObjectIds of a stored station and one of its ports.
\<close>

theorem walkin_stop_billing:
  assumes "authUserId e \<noteq> []"
    and "find (\<lambda>u. clerkId u = authUserId e) (users d) = Some u"
    and "role u = Admin \<or> role u = Superadmin"
    and "wr_action r = ''stop''"
    and "wr_bookingId r \<noteq> []"
    and "Booking_findById (toObjectId e) (bookings d) (wr_bookingId r) = Returned (Some b)"
    and "status b = Active"
    and "role u = Admin \<longrightarrow>
           (\<exists>s. findStation (toObjectId e (js_String (stationId b))) (stations d) = Some s \<and>
                adminId s = Some (authUserId e))"
  shows "fst (POST_admin_walkin e r d) = 200 \<and>
         (\<exists>b'. Booking_findById (toObjectId e) (bookings (snd (POST_admin_walkin e r d)))
                 (wr_bookingId r) = Returned (Some b') \<and>
               status b' = Completed \<and> endTime b' = dateNow e \<and>
               estimatedDuration b' =
                 of_int (max 1 (js_round (fdiv (fsub (of_int (dateNow e)) (of_int (startTime b))) 60000))) \<and>
               1 \<le> estimatedDuration b' \<and>
               amountPaid b' =
                 of_int (js_round (fmul (fdiv (fsub (of_int (dateNow e)) (of_int (startTime b))) 3600000)
                    (stopRate (findStation (toObjectId e (js_String (stationId b)))
                                (stations d))))) \<and>
               (startTime b \<le> dateNow e \<and>
                0 \<le> stopRate (findStation (toObjectId e (js_String (stationId b))) (stations d))
                \<longrightarrow> 0 \<le> amountPaid b')) \<and>
         (\<forall>i p q. toObjectId e (js_String (stationId b)) = Some i \<and>
                  toObjectId e (js_String (portId b)) = Some p \<and>
                  portOf i p (stations d) = Some q \<longrightarrow>
                  portOf i p (stations (snd (POST_admin_walkin e r d))) =
                  Some (q\<lparr>portStatus := Available\<rparr>))"
proof -
  let ?ms = "fsub (of_int (dateNow e)) (of_int (startTime b))"
  let ?rate = "stopRate (findStation (toObjectId e (js_String (stationId b))) (stations d))"
  let ?b = "b\<lparr>endTime := dateNow e,
               estimatedDuration := of_int (max 1 (js_round (fdiv ?ms 60000))),
               amountPaid := of_int (js_round (fmul (fdiv ?ms 3600000) ?rate)),
               status := Completed\<rparr>"
  note eq = admin_dispatch_stop [OF assms(1-4)]
  note stop = stop_completed [OF assms(5-8)]
  have found: "Booking_findById (toObjectId e) (bookings (snd (POST_admin_walkin e r d)))
                 (wr_bookingId r) = Returned (Some ?b)"
    unfolding eq stop(2) using assms(6) by (rule Booking_findById_save) simp
  have nonneg: "startTime b \<le> dateNow e \<and> 0 \<le> ?rate \<longrightarrow> 0 \<le> amountPaid ?b"
    by (auto intro!: js_round_nonneg fmul_nonneg fdiv_nonneg fsub_nonneg)
  have one: "1 \<le> estimatedDuration ?b"
    by simp
  have "\<exists>b'. Booking_findById (toObjectId e) (bookings (snd (POST_admin_walkin e r d)))
                 (wr_bookingId r) = Returned (Some b') \<and>
               status b' = Completed \<and> endTime b' = dateNow e \<and>
               estimatedDuration b' = of_int (max 1 (js_round (fdiv ?ms 60000))) \<and>
               1 \<le> estimatedDuration b' \<and>
               amountPaid b' = of_int (js_round (fmul (fdiv ?ms 3600000) ?rate)) \<and>
               (startTime b \<le> dateNow e \<and> 0 \<le> ?rate \<longrightarrow> 0 \<le> amountPaid b')"
    using found nonneg one by (intro exI [of _ ?b]) simp
  then show ?thesis
    using stop(1,3) unfolding eq by simp
qed

text \<open>
  A session stopped after 90 minutes at 200 rupees an hour.
\<close>

theorem walkin_stop_billing_witness:
  "fst (POST_admin_walkin demoAdminEnv demoStop (demoDbSession 1699994600000)) = 200 \<and>
   map status
     (bookings (snd (POST_admin_walkin demoAdminEnv demoStop (demoDbSession 1699994600000)))) =
     [Completed] \<and>
   map estimatedDuration
     (bookings (snd (POST_admin_walkin demoAdminEnv demoStop (demoDbSession 1699994600000)))) =
     [90] \<and>
   map amountPaid
     (bookings (snd (POST_admin_walkin demoAdminEnv demoStop (demoDbSession 1699994600000)))) =
     [300] \<and>
   portOf ''64b000000000000000000001'' ''64b000000000000000000a01''
     (stations (snd (POST_admin_walkin demoAdminEnv demoStop (demoDbSession 1699994600000)))) =
     Some demoPort1"
proof -
  let ?d = "demoDbSession 1699994600000"
  have h: "authUserId demoAdminEnv \<noteq> []"
    "find (\<lambda>u. clerkId u = authUserId demoAdminEnv) (users ?d) = Some demoAdmin"
    "role demoAdmin = Admin \<or> role demoAdmin = Superadmin"
    "wr_action demoStop = ''stop''"
    "wr_bookingId demoStop \<noteq> []"
    "Booking_findById (toObjectId demoAdminEnv) (bookings ?d) (wr_bookingId demoStop) =
       Returned (Some (demoSession 1699994600000))"
    "status (demoSession 1699994600000) = Active"
    by code_simp+
  have own: "role demoAdmin = Admin \<longrightarrow>
      (\<exists>s. findStation (toObjectId demoAdminEnv (js_String (stationId (demoSession 1699994600000))))
              (stations ?d) = Some s \<and> adminId s = Some (authUserId demoAdminEnv))"
  proof -
    have "findStation (toObjectId demoAdminEnv (js_String (stationId (demoSession 1699994600000))))
              (stations ?d) =
            Some (demoStation\<lparr>chargingPorts := [demoPort1\<lparr>portStatus := Occupied\<rparr>, demoPort2]\<rparr>) \<and>
          adminId (demoStation\<lparr>chargingPorts := [demoPort1\<lparr>portStatus := Occupied\<rparr>, demoPort2]\<rparr>) =
            Some (authUserId demoAdminEnv)"
      by code_simp
    then show ?thesis by blast
  qed
  have ok: "fst (POST_admin_walkin demoAdminEnv demoStop ?d) = 200"
    using walkin_stop_billing [OF h own] by simp
  have rest: "map status (bookings (snd (POST_admin_walkin demoAdminEnv demoStop ?d))) =
       [Completed] \<and>
     map estimatedDuration (bookings (snd (POST_admin_walkin demoAdminEnv demoStop ?d))) =
       [90] \<and>
     map amountPaid (bookings (snd (POST_admin_walkin demoAdminEnv demoStop ?d))) = [300] \<and>
     portOf ''64b000000000000000000001'' ''64b000000000000000000a01''
       (stations (snd (POST_admin_walkin demoAdminEnv demoStop ?d))) = Some demoPort1"
    by code_simp
  from ok rest show ?thesis by simp
qed

text \<open>
  Claim C5 as stated fails for an active booking whose start lies an hour after the stop:
  the duration is the minimum of one minute and the amount is 200 rupees below zero.
\<close>

theorem walkin_stop_negative_amount_counterexample:
  "map status (bookings (demoDbSession 1700003600000)) = [Active] \<and>
   map startTime (bookings (demoDbSession 1700003600000)) = [1700003600000] \<and>
   dateNow demoAdminEnv = 1700000000000 \<and>
   fst (POST_admin_walkin demoAdminEnv demoStop (demoDbSession 1700003600000)) = 200 \<and>
   map status
     (bookings (snd (POST_admin_walkin demoAdminEnv demoStop (demoDbSession 1700003600000)))) =
     [Completed] \<and>
   map estimatedDuration
     (bookings (snd (POST_admin_walkin demoAdminEnv demoStop (demoDbSession 1700003600000)))) =
     [1] \<and>
   map amountPaid
     (bookings (snd (POST_admin_walkin demoAdminEnv demoStop (demoDbSession 1700003600000)))) =
     [- 200]"
  by code_simp

section \<open>Payment verification: the settled booking\<close>

lemma verify_settled_unchanged:
  assumes "Booking_findById (toObjectId e) (bookings d) (vr_bookingId r) = Returned (Some b)"
    and "status b \<in> {Confirmed, Active, Completed}"
  shows "snd (POST_payments_verify e r d) = d"
  using assms
  by (auto simp: POST_payments_verify_def split: outcome.splits)

lemma verify_settled_ok:
  assumes "Booking_findById (toObjectId e) (bookings d) (vr_bookingId r) = Returned (Some b)"
    and "status b \<in> {Confirmed, Active, Completed}"
    and "authUserId e \<noteq> []" "vr_pidx r \<noteq> []" "vr_bookingId r \<noteq> []" "khaltiSecretKey e"
    and "khaltiLookup e \<noteq> Raised" "userId b = authUserId e"
  shows "POST_payments_verify e r d = (200, d)"
  using assms
  by (auto simp: POST_payments_verify_def split: outcome.splits)

lemma verify_completed_settles:
  assumes "khaltiLookup e = Returned ''Completed''"
    and "fst (POST_payments_verify e r d) = 200"
  shows "\<exists>b. Booking_findById (toObjectId e) (bookings (snd (POST_payments_verify e r d)))
               (vr_bookingId r) = Returned (Some b) \<and>
             status b \<in> {Confirmed, Active, Completed}"
proof -
  from assms obtain b where
    b: "Booking_findById (toObjectId e) (bookings d) (vr_bookingId r) = Returned (Some b)"
    by (auto simp: POST_payments_verify_def split: if_splits outcome.splits option.splits)
  show ?thesis
  proof (cases "status b \<in> {Confirmed, Active, Completed}")
    case True
    with b verify_settled_unchanged [OF b True] show ?thesis by auto
  next
    case False
    have "bookings (snd (POST_payments_verify e r d)) =
          saveBooking (b\<lparr>status := Confirmed\<rparr>) (bookings d)"
      using assms b False
      by (auto simp: POST_payments_verify_def Let_def
            split: if_splits outcome.splits option.splits)
    moreover have "Booking_findById (toObjectId e)
           (saveBooking (b\<lparr>status := Confirmed\<rparr>) (bookings d)) (vr_bookingId r) =
         Returned (Some (b\<lparr>status := Confirmed\<rparr>))"
      using b by (rule Booking_findById_save) simp
    ultimately show ?thesis by simp
  qed
qed

text \<open>
  Claim C3: when the booking is already confirmed, active or completed, verification
  leaves the database as it is, and answers 200 with it unchanged once the request has
  passed the checks before; so a second verification after one that answered 200 on the
  gateway status "Completed" leaves the booking and the ports exactly as the first left
  them, whatever the gateway then reports.
\<close>

theorem verify_idempotent:
  "(Booking_findById (toObjectId e) (bookings d) (vr_bookingId r) = Returned (Some b) \<and>
    status b \<in> {Confirmed, Active, Completed} \<longrightarrow>
      snd (POST_payments_verify e r d) = d \<and>
      (authUserId e \<noteq> [] \<and> vr_pidx r \<noteq> [] \<and> vr_bookingId r \<noteq> [] \<and> khaltiSecretKey e \<and>
       khaltiLookup e \<noteq> Raised \<and> userId b = authUserId e \<longrightarrow>
         POST_payments_verify e r d = (200, d))) \<and>
   (khaltiLookup e = Returned ''Completed'' \<and> fst (POST_payments_verify e r d) = 200 \<and>
    toObjectId e' = toObjectId e \<longrightarrow>
      snd (POST_payments_verify e' r (snd (POST_payments_verify e r d))) =
      snd (POST_payments_verify e r d))"
proof (intro conjI impI; (elim conjE)?)
  assume b: "Booking_findById (toObjectId e) (bookings d) (vr_bookingId r) = Returned (Some b)"
    and s: "status b \<in> {Confirmed, Active, Completed}"
  from b s show "snd (POST_payments_verify e r d) = d"
    by (rule verify_settled_unchanged)
  assume "authUserId e \<noteq> []" "vr_pidx r \<noteq> []" "vr_bookingId r \<noteq> []" "khaltiSecretKey e"
    "khaltiLookup e \<noteq> Raised" "userId b = authUserId e"
  with b s show "POST_payments_verify e r d = (200, d)"
    by (rule verify_settled_ok)
next
  assume c: "khaltiLookup e = Returned ''Completed''"
    and ok: "fst (POST_payments_verify e r d) = 200"
    and cast: "toObjectId e' = toObjectId e"
  from verify_completed_settles [OF c ok] obtain b' where
    "Booking_findById (toObjectId e') (bookings (snd (POST_payments_verify e r d)))
       (vr_bookingId r) = Returned (Some b')"
    "status b' \<in> {Confirmed, Active, Completed}"
    unfolding cast by blast
  then show "snd (POST_payments_verify e' r (snd (POST_payments_verify e r d))) =
      snd (POST_payments_verify e r d)"
    by (rule verify_settled_unchanged)
qed

text \<open>
  Verification of the pending example booking, twice: the first run reserves the port,
  the second changes nothing.
\<close>

theorem verify_idempotent_witness:
  "fst (POST_payments_verify demoEnv demoVerify demoDbPending) = 200 \<and>
   portOf ''64b000000000000000000001'' ''64b000000000000000000a01''
     (stations (snd (POST_payments_verify demoEnv demoVerify demoDbPending))) =
     Some (demoPort1\<lparr>portStatus := Reserved,
                     currentBookingId := Some ''64b0000000000000000000b3''\<rparr>) \<and>
   POST_payments_verify demoEnv demoVerify
     (snd (POST_payments_verify demoEnv demoVerify demoDbPending)) =
   (200, snd (POST_payments_verify demoEnv demoVerify demoDbPending))"
proof -
  let ?d1 = "snd (POST_payments_verify demoEnv demoVerify demoDbPending)"
  have first: "fst (POST_payments_verify demoEnv demoVerify demoDbPending) = 200"
    "khaltiLookup demoEnv = Returned ''Completed''"
    "portOf ''64b000000000000000000001'' ''64b000000000000000000a01'' (stations ?d1) =
     Some (demoPort1\<lparr>portStatus := Reserved,
                     currentBookingId := Some ''64b0000000000000000000b3''\<rparr>)"
    by code_simp+
  have again: "fst (POST_payments_verify demoEnv demoVerify ?d1) = 200"
    by code_simp
  from verify_idempotent [of demoEnv demoDbPending demoVerify _ demoEnv] first(1,2)
  have "snd (POST_payments_verify demoEnv demoVerify ?d1) = ?d1"
    by simp
  with again have "POST_payments_verify demoEnv demoVerify ?d1 = (200, ?d1)"
    by (simp add: prod_eq_iff)
  with first show ?thesis by simp
qed

section \<open>Payment verification: the gateway status\<close>

lemma verify_completed:
  assumes "authUserId e \<noteq> []" "vr_pidx r \<noteq> []" "vr_bookingId r \<noteq> []" "khaltiSecretKey e"
    and "khaltiLookup e = Returned ''Completed''"
    and "Booking_findById (toObjectId e) (bookings d) (vr_bookingId r) = Returned (Some b)"
    and "userId b = authUserId e"
    and "status b \<notin> {Confirmed, Active, Completed}"
  shows "bookings (snd (POST_payments_verify e r d)) =
           saveBooking (b\<lparr>status := Confirmed\<rparr>) (bookings d)"
    and "\<And>sid P. castIdent (toObjectId e) (stationId b) = Some sid \<Longrightarrow>
           portFilter e b = Some P \<Longrightarrow>
           POST_payments_verify e r d =
             (200, d\<lparr>bookings := saveBooking (b\<lparr>status := Confirmed\<rparr>) (bookings d),
                     stations := updatePort sid P
                        (\<lambda>q. q\<lparr>portStatus := Reserved,
                                currentBookingId := Some (booking_id b)\<rparr>) (stations d)\<rparr>)"
proof -
  have pf: "portFilter e (b\<lparr>status := Confirmed\<rparr>) = portFilter e b"
    by (simp add: portFilter_def)
  show "bookings (snd (POST_payments_verify e r d)) =
           saveBooking (b\<lparr>status := Confirmed\<rparr>) (bookings d)"
    using assms
    by (auto simp: POST_payments_verify_def Let_def split: outcome.splits)
  fix sid P
  assume "castIdent (toObjectId e) (stationId b) = Some sid" "portFilter e b = Some P"
  then show "POST_payments_verify e r d =
             (200, d\<lparr>bookings := saveBooking (b\<lparr>status := Confirmed\<rparr>) (bookings d),
                     stations := updatePort sid P
                        (\<lambda>q. q\<lparr>portStatus := Reserved,
                                currentBookingId := Some (booking_id b)\<rparr>) (stations d)\<rparr>)"
    using assms pf
    by (simp add: POST_payments_verify_def Let_def reservePort_def)
qed

lemma verify_cancelled:
  assumes "authUserId e \<noteq> []" "vr_pidx r \<noteq> []" "vr_bookingId r \<noteq> []" "khaltiSecretKey e"
    and "khaltiLookup e = Returned s"
    and "Booking_findById (toObjectId e) (bookings d) (vr_bookingId r) = Returned (Some b)"
    and "userId b = authUserId e"
    and "status b \<notin> {Confirmed, Active, Completed}"
    and "s \<in> {''User canceled'', ''Expired'', ''Refunded'', ''Partially refunded''}"
  shows "POST_payments_verify e r d =
           (200, d\<lparr>bookings := saveBooking (b\<lparr>status := Cancelled\<rparr>) (bookings d)\<rparr>)"
  using assms by (auto simp: POST_payments_verify_def)

lemma verify_other:
  assumes "authUserId e \<noteq> []" "vr_pidx r \<noteq> []" "vr_bookingId r \<noteq> []" "khaltiSecretKey e"
    and "khaltiLookup e = Returned s"
    and "Booking_findById (toObjectId e) (bookings d) (vr_bookingId r) = Returned (Some b)"
    and "userId b = authUserId e"
    and "status b \<notin> {Confirmed, Active, Completed}"
    and "s \<notin> {''Completed'', ''User canceled'', ''Expired'', ''Refunded'',
               ''Partially refunded''}"
  shows "POST_payments_verify e r d = (200, d)"
  using assms by (auto simp: POST_payments_verify_def)

text \<open>
  Claim C2, as amended: for a request that reaches the status mapping (signed in, both
  fields given, gateway configured, lookup answered, the booking found, owned by the
  user and not yet confirmed, active or completed), the gateway status "Completed" sets
  the booking to confirmed and reserves the booked port of the stored station, with the
  booking as its current one; "User canceled", "Expired", "Refunded" and "Partially
  refunded" set the booking to cancelled and change nothing else; every other status
  leaves the database unchanged.
\<close>

theorem verify_status_mapping:
  assumes "authUserId e \<noteq> []" "vr_pidx r \<noteq> []" "vr_bookingId r \<noteq> []" "khaltiSecretKey e"
    and "khaltiLookup e = Returned s"
    and "Booking_findById (toObjectId e) (bookings d) (vr_bookingId r) = Returned (Some b)"
    and "userId b = authUserId e"
    and "status b \<notin> {Confirmed, Active, Completed}"
  shows "(s = ''Completed'' \<longrightarrow>
            Booking_findById (toObjectId e) (bookings (snd (POST_payments_verify e r d)))
              (vr_bookingId r) = Returned (Some (b\<lparr>status := Confirmed\<rparr>)) \<and>
            (\<forall>sid p q. castIdent (toObjectId e) (stationId b) = Some sid \<and>
                isOid (js_String (portId b)) \<and>
                castIdent (toObjectId e) (portId b) = Some p \<and>
                portOf sid p (stations d) = Some q \<longrightarrow>
                fst (POST_payments_verify e r d) = 200 \<and>
                portOf sid p (stations (snd (POST_payments_verify e r d))) =
                Some (q\<lparr>portStatus := Reserved, currentBookingId := Some (booking_id b)\<rparr>)) \<and>
            (\<forall>sid q. castIdent (toObjectId e) (stationId b) = Some sid \<and>
                \<not> isOid (js_String (portId b)) \<and>
                portWhere sid (\<lambda>x. portNumber x = js_String (portId b)) (stations d) = Some q
                \<longrightarrow>
                fst (POST_payments_verify e r d) = 200 \<and>
                portWhere sid (\<lambda>x. portNumber x = js_String (portId b))
                  (stations (snd (POST_payments_verify e r d))) =
                Some (q\<lparr>portStatus := Reserved, currentBookingId := Some (booking_id b)\<rparr>))) \<and>
         (s \<in> {''User canceled'', ''Expired'', ''Refunded'', ''Partially refunded''} \<longrightarrow>
            POST_payments_verify e r d =
              (200, d\<lparr>bookings := saveBooking (b\<lparr>status := Cancelled\<rparr>) (bookings d)\<rparr>) \<and>
            Booking_findById (toObjectId e) (bookings (snd (POST_payments_verify e r d)))
              (vr_bookingId r) = Returned (Some (b\<lparr>status := Cancelled\<rparr>))) \<and>
         (s \<notin> {''Completed'', ''User canceled'', ''Expired'', ''Refunded'',
                 ''Partially refunded''} \<longrightarrow>
            POST_payments_verify e r d = (200, d))"
proof (intro conjI impI allI; (elim conjE)?)
  assume s: "s = ''Completed''"
  note c = verify_completed [OF assms(1-4) assms(5) [unfolded s] assms(6-8)]
  show "Booking_findById (toObjectId e) (bookings (snd (POST_payments_verify e r d)))
          (vr_bookingId r) = Returned (Some (b\<lparr>status := Confirmed\<rparr>))"
    unfolding c(1) using assms(6) by (rule Booking_findById_save) simp
  {
    fix sid p q
    assume sid: "castIdent (toObjectId e) (stationId b) = Some sid"
      and oid: "isOid (js_String (portId b))"
      and p: "castIdent (toObjectId e) (portId b) = Some p"
      and q: "portOf sid p (stations d) = Some q"
    have pf: "portFilter e b = Some (\<lambda>x. port_id x = Some p)"
      using oid p by (simp add: portFilter_def)
    from q have pq: "port_id q = Some p"
      by (auto simp: portOf_def portWhere_def split: option.splits dest: find_Some_holds)
    show "fst (POST_payments_verify e r d) = 200"
      by (simp add: c(2) [OF sid pf])
    show "portOf sid p (stations (snd (POST_payments_verify e r d))) =
          Some (q\<lparr>portStatus := Reserved, currentBookingId := Some (booking_id b)\<rparr>)"
      using q pq unfolding c(2) [OF sid pf] portOf_def
      by (simp add: portWhere_updatePort)
  }
  {
    fix sid q
    assume sid: "castIdent (toObjectId e) (stationId b) = Some sid"
      and oid: "\<not> isOid (js_String (portId b))"
      and q: "portWhere sid (\<lambda>x. portNumber x = js_String (portId b)) (stations d) = Some q"
    have pf: "portFilter e b = Some (\<lambda>x. portNumber x = js_String (portId b))"
      using oid by (simp add: portFilter_def)
    from q have pq: "portNumber q = js_String (portId b)"
      by (auto simp: portWhere_def split: option.splits dest: find_Some_holds)
    show "fst (POST_payments_verify e r d) = 200"
      by (simp add: c(2) [OF sid pf])
    show "portWhere sid (\<lambda>x. portNumber x = js_String (portId b))
            (stations (snd (POST_payments_verify e r d))) =
          Some (q\<lparr>portStatus := Reserved, currentBookingId := Some (booking_id b)\<rparr>)"
      using q pq unfolding c(2) [OF sid pf]
      by (simp add: portWhere_updatePort)
  }
next
  assume s: "s \<in> {''User canceled'', ''Expired'', ''Refunded'', ''Partially refunded''}"
  note c = verify_cancelled [OF assms s]
  show "POST_payments_verify e r d =
          (200, d\<lparr>bookings := saveBooking (b\<lparr>status := Cancelled\<rparr>) (bookings d)\<rparr>)"
    by (rule c)
  show "Booking_findById (toObjectId e) (bookings (snd (POST_payments_verify e r d)))
          (vr_bookingId r) = Returned (Some (b\<lparr>status := Cancelled\<rparr>))"
    unfolding c using assms(6) by (simp add: Booking_findById_save)
next
  assume "s \<notin> {''Completed'', ''User canceled'', ''Expired'', ''Refunded'',
                 ''Partially refunded''}"
  with assms show "POST_payments_verify e r d = (200, d)"
    by (rule verify_other)
qed

text \<open>
  The pending example booking, verified on "Completed".
\<close>

theorem verify_status_mapping_witness:
  "Booking_findById (toObjectId demoEnv)
     (bookings (snd (POST_payments_verify demoEnv demoVerify demoDbPending)))
     (vr_bookingId demoVerify) = Returned (Some (demoPending\<lparr>status := Confirmed\<rparr>)) \<and>
   fst (POST_payments_verify demoEnv demoVerify demoDbPending) = 200 \<and>
   portOf ''64b000000000000000000001'' ''64b000000000000000000a01''
     (stations (snd (POST_payments_verify demoEnv demoVerify demoDbPending))) =
   Some (demoPort1\<lparr>portStatus := Reserved, currentBookingId := Some (booking_id demoPending)\<rparr>)"
proof -
  have h: "authUserId demoEnv \<noteq> []" "vr_pidx demoVerify \<noteq> []" "vr_bookingId demoVerify \<noteq> []"
    "khaltiSecretKey demoEnv" "khaltiLookup demoEnv = Returned ''Completed''"
    "Booking_findById (toObjectId demoEnv) (bookings demoDbPending) (vr_bookingId demoVerify) =
       Returned (Some demoPending)"
    "userId demoPending = authUserId demoEnv"
    "status demoPending \<notin> {Confirmed, Active, Completed}"
    by code_simp+
  have port: "castIdent (toObjectId demoEnv) (stationId demoPending) =
        Some ''64b000000000000000000001'' \<and>
      isOid (js_String (portId demoPending)) \<and>
      castIdent (toObjectId demoEnv) (portId demoPending) = Some ''64b000000000000000000a01'' \<and>
      portOf ''64b000000000000000000001'' ''64b000000000000000000a01'' (stations demoDbPending) =
        Some demoPort1"
    by code_simp
  note c = verify_status_mapping [OF h, THEN conjunct1, THEN mp, OF refl]
  note found = c [THEN conjunct1]
  note reserved = c [THEN conjunct2, THEN conjunct1, rule_format, OF port]
  from found reserved show ?thesis by (simp only: simp_thms)
qed

text \<open>
  Claim C2 as stated fails for the gateway status "Partially refunded", which is none of
  the four statuses it names: the pending booking is cancelled.
\<close>

theorem verify_partially_refunded_counterexample:
  "khaltiLookup demoEnvRefunded = Returned ''Partially refunded'' \<and>
   map status (bookings demoDbPending) = [Pending] \<and>
   fst (POST_payments_verify demoEnvRefunded demoVerify demoDbPending) = 200 \<and>
   map status (bookings (snd (POST_payments_verify demoEnvRefunded demoVerify demoDbPending))) =
     [Cancelled]"
  by code_simp

section \<open>Booking creation\<close>

lemma resolveUser_keeps:
  "resolveUser e d = Returned (Some (u, d1)) \<Longrightarrow>
   bookings d1 = bookings d \<and> stations d1 = stations d"
  by (auto simp: resolveUser_def Let_def split: option.splits if_splits)

lemma initiate_lookup_keeps:
  assumes "initiate_lookup e r d = Inr (u, d1, st, port)"
  shows "bookings d1 = bookings d" and "stations d1 = stations d"
  using assms resolveUser_keeps [of e d]
  by (auto simp: initiate_lookup_def split: if_splits option.splits outcome.splits)

lemma initiate_payment_length:
  "length (bookings (snd (initiate_payment e amt created d))) = length (bookings d)"
proof -
  have "length (updateFirst P f xs) = length xs" for P f and xs :: "booking list"
    by (induction xs) auto
  then show ?thesis
    by (auto simp: initiate_payment_def saveBooking_def split: outcome.splits)
qed

lemma initiate_payment_status:
  "fst (initiate_payment e amt created d) = 200 \<or>
   fst (initiate_payment e amt created d) = 500"
  by (auto simp: initiate_payment_def split: outcome.splits)

lemma initiate_after_lookup:
  assumes "initiate_lookup e r d = Inr (u, d1, st, port)"
    and "ir_startTime r = Parsed start" and "ir_estimatedDuration r = Parsed dur"
    and "bookingEnd start dur = Some endT"
  shows "POST_payments_initiate e r d =
     (case initiate_transaction e r u (canonicalPortId port (ir_portId r)) start
             endT dur d1 of
        Inl response \<Rightarrow> response
      | Inr (created, d2) \<Rightarrow>
          initiate_payment e (totalAmountNPR (take 8 (ir_stationId r) = ''station-'') st dur)
            created d2)"
  using assms by (simp add: POST_payments_initiate_def)

lemma initiate_invalid_end:
  assumes "initiate_lookup e r d = Inr (u, d1, st, port)"
    and "ir_startTime r = Parsed start" and "ir_estimatedDuration r = Parsed dur"
    and "bookingEnd start dur = None"
  shows "POST_payments_initiate e r d = (500, d1)"
  using assms by (simp add: POST_payments_initiate_def)

lemma transaction_conflict:
  assumes "\<exists>b\<in>set (bookings d). overlapping (ir_stationId r) pid start endT b"
  shows "initiate_transaction e r u pid start endT dur d = Inl (409, d)"
proof -
  from assms obtain x where
    "find (overlapping (ir_stationId r) pid start endT) (bookings d) = Some x"
    using find_Some_ex [of "overlapping (ir_stationId r) pid start endT" "bookings d"] by blast
  then show ?thesis by (simp add: initiate_transaction_def)
qed

lemma transaction_insert:
  assumes "\<not> (\<exists>b\<in>set (bookings d). overlapping (ir_stationId r) pid start endT b)"
  shows "\<exists>b. initiate_transaction e r u pid start endT dur d =
               Inr (b, d\<lparr>bookings := bookings d @ [b]\<rparr>) \<and>
             booking_id b = createdId e \<and> status b = Pending \<and> khaltiPidx b = None \<and>
             stationId b = StrId (ir_stationId r) \<and> portId b = StrId pid \<and>
             startTime b = start \<and> endTime b = endT"
proof -
  have "find (overlapping (ir_stationId r) pid start endT) (bookings d) = None"
    using assms by (simp add: find_None_iff_ball)
  then show ?thesis by (simp add: initiate_transaction_def Let_def)
qed

text \<open>
  The overlap check of the handler. For a request that names an existing station and
  port and a start time and duration that parse, with an end of the slot that is a
  valid date (and has passed the checks before the transaction), the handler answers
  409 and inserts no booking if and only if a stored
  booking whose station and port references are the strings of the request (the station
  identifier and the canonical port identifier), with status pending, confirmed or
  active, satisfies \<open>existing.start < newEnd \<and> existing.end > newStart\<close>; without such a
  booking the request is not answered 409 and one booking is inserted. A booking that
  ends when the new one starts does not satisfy the test.
\<close>

theorem initiate_conflict_iff_overlap:
  assumes "initiate_lookup e r d = Inr (u, d1, st, port)"
    and "ir_startTime r = Parsed start" and "ir_estimatedDuration r = Parsed dur"
    and "bookingEnd start dur = Some endT"
  shows "((fst (POST_payments_initiate e r d) = 409 \<and>
           bookings (snd (POST_payments_initiate e r d)) = bookings d) \<longleftrightarrow>
          (\<exists>b\<in>set (bookings d).
              stationId b = StrId (ir_stationId r) \<and>
              portId b = StrId (canonicalPortId port (ir_portId r)) \<and>
              status b \<in> {Pending, Confirmed, Active} \<and>
              startTime b < endT \<and>
              endTime b > start)) \<and>
         (\<not> (\<exists>b\<in>set (bookings d).
              stationId b = StrId (ir_stationId r) \<and>
              portId b = StrId (canonicalPortId port (ir_portId r)) \<and>
              status b \<in> {Pending, Confirmed, Active} \<and>
              startTime b < endT \<and>
              endTime b > start) \<longrightarrow>
            (fst (POST_payments_initiate e r d) = 200 \<or>
             fst (POST_payments_initiate e r d) = 500) \<and>
            length (bookings (snd (POST_payments_initiate e r d))) = Suc (length (bookings d)))"
proof -
  let ?pid = "canonicalPortId port (ir_portId r)"
  let ?end = endT
  let ?ov = "\<exists>b\<in>set (bookings d1). overlapping (ir_stationId r) ?pid start ?end b"
  note keep = initiate_lookup_keeps [OF assms(1)]
  note post = initiate_after_lookup [OF assms]
  have rhs: "?ov \<longleftrightarrow> (\<exists>b\<in>set (bookings d).
              stationId b = StrId (ir_stationId r) \<and> portId b = StrId ?pid \<and>
              status b \<in> {Pending, Confirmed, Active} \<and>
              startTime b < ?end \<and> endTime b > start)"
    by (simp add: keep overlapping_def)
  show ?thesis
  proof (cases ?ov)
    case True
    have "POST_payments_initiate e r d = (409, d1)"
      unfolding post by (simp add: transaction_conflict [OF True])
    with True rhs keep show ?thesis by simp
  next
    case False
    from transaction_insert [OF False] obtain b where
      b: "initiate_transaction e r u ?pid start ?end dur d1 =
            Inr (b, d1\<lparr>bookings := bookings d1 @ [b]\<rparr>)"
      by blast
    let ?total = "totalAmountNPR (take 8 (ir_stationId r) = ''station-'') st dur"
    have eq: "POST_payments_initiate e r d =
          initiate_payment e ?total b (d1\<lparr>bookings := bookings d1 @ [b]\<rparr>)"
      unfolding post by (simp add: b)
    have st: "fst (POST_payments_initiate e r d) = 200 \<or>
              fst (POST_payments_initiate e r d) = 500"
      using initiate_payment_status [of e ?total b "d1\<lparr>bookings := bookings d1 @ [b]\<rparr>"]
      unfolding eq by auto
    have len: "length (bookings (snd (POST_payments_initiate e r d))) = Suc (length (bookings d))"
      unfolding eq initiate_payment_length by (simp add: keep)
    from False rhs st len show ?thesis by auto
  qed
qed

text \<open>
  The example of the specification: with a booking from 10:00 to 11:00 stored, a
  request from 10:30 to 11:30 on the same port is answered 409 and changes nothing, and
  a request from 11:00 to 12:00 is answered 200 and leaves two bookings.
\<close>

theorem initiate_conflict_iff_overlap_witness:
  "bookings demoDbPending = [demoPending] \<and>
   startTime demoPending = 1700006400000 \<and> endTime demoPending = 1700010000000 \<and>
   POST_payments_initiate demoEnv (demoInitiate 1700008200000) demoDbPending =
     (409, demoDbPending) \<and>
   fst (POST_payments_initiate demoEnv (demoInitiate 1700010000000) demoDbPending) = 200 \<and>
   length (bookings (snd (POST_payments_initiate demoEnv (demoInitiate 1700010000000)
                            demoDbPending))) = 2"
proof -
  have l: "initiate_lookup demoEnv (demoInitiate 1700008200000) demoDbPending =
             Inr (demoUser, demoDbPending, demoStation, demoPort1)"
    "initiate_lookup demoEnv (demoInitiate 1700010000000) demoDbPending =
             Inr (demoUser, demoDbPending, demoStation, demoPort1)"
    by code_simp+
  have p: "ir_startTime (demoInitiate t) = Parsed t"
    "ir_estimatedDuration (demoInitiate t) = Parsed 60" for t
    by (simp_all add: demoInitiate_def)
  have facts: "bookings demoDbPending = [demoPending]"
    "startTime demoPending = 1700006400000" "endTime demoPending = 1700010000000"
    by code_simp+
  have ends: "bookingEnd 1700008200000 60 = Some 1700011800000"
    "bookingEnd 1700010000000 60 = Some 1700013600000"
    by code_simp+
  have over: "\<exists>b\<in>set (bookings demoDbPending).
      stationId b = StrId (ir_stationId (demoInitiate 1700008200000)) \<and>
      portId b = StrId (canonicalPortId demoPort1 (ir_portId (demoInitiate 1700008200000))) \<and>
      status b \<in> {Pending, Confirmed, Active} \<and>
      startTime b < 1700011800000 \<and>
      endTime b > 1700008200000"
    by code_simp
  have abut: "\<not> (\<exists>b\<in>set (bookings demoDbPending).
      stationId b = StrId (ir_stationId (demoInitiate 1700010000000)) \<and>
      portId b = StrId (canonicalPortId demoPort1 (ir_portId (demoInitiate 1700010000000))) \<and>
      status b \<in> {Pending, Confirmed, Active} \<and>
      startTime b < 1700013600000 \<and>
      endTime b > 1700010000000)"
    by code_simp
  have b: "fst (POST_payments_initiate demoEnv (demoInitiate 1700008200000) demoDbPending) = 409"
    "bookings (snd (POST_payments_initiate demoEnv (demoInitiate 1700008200000) demoDbPending)) =
       bookings demoDbPending"
    using initiate_conflict_iff_overlap [OF l(1) p ends(1), THEN conjunct1, THEN iffD2, OF over]
    by (simp_all only: simp_thms)
  have b': "snd (POST_payments_initiate demoEnv (demoInitiate 1700008200000) demoDbPending) =
       demoDbPending"
    by code_simp
  have c: "length (bookings (snd (POST_payments_initiate demoEnv (demoInitiate 1700010000000)
                            demoDbPending))) = Suc (length (bookings demoDbPending))"
    using initiate_conflict_iff_overlap [OF l(2) p ends(2), THEN conjunct2, THEN mp, OF abut]
    by (simp only: simp_thms)
  have c': "fst (POST_payments_initiate demoEnv (demoInitiate 1700010000000) demoDbPending) = 200"
    by code_simp
  from facts b b' c c' show ?thesis by (simp add: prod_eq_iff)
qed

text \<open>
  Claim C1 asks that a request be rejected with 409 whenever a pending, confirmed or
  active booking on the port overlaps the requested slot. The query of the handler
  compares the stored references with strings, so it does not find a booking whose
  references are stored as ObjectIds, which is how the admin start action stores them
  (and why the query of that action lists both kinds): after an administrator has
  started a walk-in session on a port, active from now for an hour, a request for the
  same port that starts ten minutes later is answered 200, and a second booking that
  overlaps the first is inserted.
\<close>

theorem initiate_accepts_over_admin_walkin:
  "fst (POST_admin_walkin demoAdminEnv (demoStart ''64b000000000000000000a01'') demoDb) = 201 \<and>
   map status (bookings demoDbWalkin) = [Active] \<and>
   map stationId (bookings demoDbWalkin) = [ObjId ''64b000000000000000000001''] \<and>
   map portId (bookings demoDbWalkin) = [ObjId ''64b000000000000000000a01''] \<and>
   map startTime (bookings demoDbWalkin) = [1700000000000] \<and>
   map endTime (bookings demoDbWalkin) = [1700003600000] \<and>
   ir_stationId (demoInitiate 1700000600000) = ''64b000000000000000000001'' \<and>
   ir_portId (demoInitiate 1700000600000) = ''64b000000000000000000a01'' \<and>
   fst (POST_payments_initiate demoEnvOnline (demoInitiate 1700000600000) demoDbWalkin) = 200 \<and>
   map status
     (bookings (snd (POST_payments_initiate demoEnvOnline (demoInitiate 1700000600000)
                       demoDbWalkin))) = [Active, Pending] \<and>
   map portId
     (bookings (snd (POST_payments_initiate demoEnvOnline (demoInitiate 1700000600000)
                       demoDbWalkin))) =
     [ObjId ''64b000000000000000000a01'', StrId ''64b000000000000000000a01''] \<and>
   map startTime
     (bookings (snd (POST_payments_initiate demoEnvOnline (demoInitiate 1700000600000)
                       demoDbWalkin))) = [1700000000000, 1700000600000] \<and>
   map endTime
     (bookings (snd (POST_payments_initiate demoEnvOnline (demoInitiate 1700000600000)
                       demoDbWalkin))) = [1700003600000, 1700004200000]"
  by code_simp

text \<open>
  Claim C6: the pending booking is inserted by the transaction before the payment
  gateway is called, and a gateway call that fails removes nothing: the handler answers
  500, and the database holds the booking with status pending and without payment
  reference. The request is one that reaches the commit: it has passed the checks before
  the transaction, its slot ends at a valid date, and no stored booking conflicts.
\<close>

theorem initiate_gateway_failure_keeps_pending:
  assumes "initiate_lookup e r d = Inr (u, d1, st, port)"
    and "ir_startTime r = Parsed start" and "ir_estimatedDuration r = Parsed dur"
    and "bookingEnd start dur = Some endT"
    and "\<not> (\<exists>b\<in>set (bookings d).
              overlapping (ir_stationId r) (canonicalPortId port (ir_portId r)) start
                endT b)"
    and "khaltiInitiate e = Raised"
  shows "fst (POST_payments_initiate e r d) = 500 \<and>
         (\<exists>b. bookings (snd (POST_payments_initiate e r d)) = bookings d @ [b] \<and>
              booking_id b = createdId e \<and> status b = Pending \<and> khaltiPidx b = None \<and>
              stationId b = StrId (ir_stationId r) \<and>
              portId b = StrId (canonicalPortId port (ir_portId r)) \<and>
              startTime b = start \<and> endTime b = endT) \<and>
         stations (snd (POST_payments_initiate e r d)) = stations d"
proof -
  let ?pid = "canonicalPortId port (ir_portId r)"
  let ?end = endT
  note keep = initiate_lookup_keeps [OF assms(1)]
  note post = initiate_after_lookup [OF assms(1-4)]
  have "\<not> (\<exists>b\<in>set (bookings d1). overlapping (ir_stationId r) ?pid start ?end b)"
    using assms(5) by (simp add: keep)
  from transaction_insert [OF this] obtain b where
    b: "initiate_transaction e r u ?pid start ?end dur d1 =
          Inr (b, d1\<lparr>bookings := bookings d1 @ [b]\<rparr>)"
      "booking_id b = createdId e" "status b = Pending" "khaltiPidx b = None"
      "stationId b = StrId (ir_stationId r)" "portId b = StrId ?pid" "startTime b = start"
      "endTime b = endT"
    by blast
  have "POST_payments_initiate e r d = (500, d1\<lparr>bookings := bookings d1 @ [b]\<rparr>)"
    unfolding post using assms(6)
    by (simp add: b(1) initiate_payment_def split: outcome.splits)
  with b keep show ?thesis by auto
qed

text \<open>
  The request from 11:00 to 12:00 with the gateway down.
\<close>

theorem initiate_gateway_failure_keeps_pending_witness:
  "fst (POST_payments_initiate demoEnvGatewayDown (demoInitiate 1700010000000) demoDbPending) =
     500 \<and>
   bookings (snd (POST_payments_initiate demoEnvGatewayDown (demoInitiate 1700010000000)
                    demoDbPending)) = [demoPending, demoCreated] \<and>
   status demoCreated = Pending \<and> khaltiPidx demoCreated = None"
proof -
  let ?e = demoEnvGatewayDown and ?r = "demoInitiate 1700010000000"
  have l: "initiate_lookup ?e ?r demoDbPending =
             Inr (demoUser, demoDbPending, demoStation, demoPort1)"
    by code_simp
  have p: "ir_startTime ?r = Parsed 1700010000000" "ir_estimatedDuration ?r = Parsed 60"
    by (simp_all add: demoInitiate_def)
  have en: "bookingEnd 1700010000000 60 = Some 1700013600000"
    by code_simp
  have free: "\<not> (\<exists>b\<in>set (bookings demoDbPending).
      overlapping (ir_stationId ?r) (canonicalPortId demoPort1 (ir_portId ?r)) 1700010000000
        1700013600000 b)"
    by code_simp
  have g: "khaltiInitiate ?e = Raised"
    by code_simp
  have st: "fst (POST_payments_initiate ?e ?r demoDbPending) = 500"
    using initiate_gateway_failure_keeps_pending [OF l p en free g] by simp
  have db: "bookings (snd (POST_payments_initiate ?e ?r demoDbPending)) =
              [demoPending, demoCreated] \<and>
            status demoCreated = Pending \<and> khaltiPidx demoCreated = None"
    by code_simp
  from st db show ?thesis by simp
qed

section \<open>Response statuses\<close>

lemma checkin_status: "fst (POST_walkin_checkin e r d) \<in> {201, 400, 404, 409, 500}"
  by (auto simp: POST_walkin_checkin_def Let_def split: outcome.splits option.splits)

lemma walkin_start_status: "fst (walkin_start e r u d) \<in> {201, 400, 403, 404, 409}"
  by (auto simp: walkin_start_def Let_def split: option.splits)

lemma walkin_stop_status: "fst (walkin_stop e r u d) \<in> {200, 400, 403, 404, 500}"
  by (auto simp: walkin_stop_def Let_def split: outcome.splits option.splits)

lemma walkin_log_status: "fst (walkin_log e r u d) \<in> {201, 400, 403, 500}"
  by (auto simp: walkin_log_def Let_def split: outcome.splits option.splits field.splits)

lemma admin_walkin_status:
  "fst (POST_admin_walkin e r d) \<in> {200, 201, 400, 401, 403, 404, 409, 500}"
  using walkin_start_status [of e r _ d] walkin_stop_status [of e r _ d]
    walkin_log_status [of e r _ d]
  by (auto simp: POST_admin_walkin_def Let_def split: option.splits)

lemma verify_status:
  "fst (POST_payments_verify e r d) \<in> {200, 400, 401, 403, 404, 500, 503}"
  "fst (POST_payments_verify e r d) = 503 \<Longrightarrow> \<not> khaltiSecretKey e"
  by (auto simp: POST_payments_verify_def Let_def split: outcome.splits option.splits if_splits)

lemma initiate_lookup_status:
  "initiate_lookup e r d = Inl (c, d') \<Longrightarrow> c \<in> {400, 401, 404, 500, 503}"
  "initiate_lookup e r d = Inl (503, d') \<Longrightarrow> \<not> khaltiSecretKey e"
  by (auto simp: initiate_lookup_def split: if_splits outcome.splits option.splits)

lemma initiate_transaction_status:
  "initiate_transaction e r u pid start endT dur d = Inl (c, d') \<Longrightarrow> c = 409"
  by (auto simp: initiate_transaction_def Let_def split: option.splits)

lemma initiate_cases:
  "(\<exists>c d'. initiate_lookup e r d = Inl (c, d') \<and> fst (POST_payments_initiate e r d) = c) \<or>
   fst (POST_payments_initiate e r d) \<in> {200, 409, 500}"
proof (cases "initiate_lookup e r d")
  case (Inl res)
  then show ?thesis
    by (cases res) (simp add: POST_payments_initiate_def)
next
  case (Inr x)
  then obtain u d1 st port where x: "initiate_lookup e r d = Inr (u, d1, st, port)"
    by (cases x) auto
  have "fst (POST_payments_initiate e r d) \<in> {200, 409, 500}"
  proof (cases "\<exists>start dur. ir_startTime r = Parsed start \<and> ir_estimatedDuration r = Parsed dur")
    case True
    then obtain start dur where p: "ir_startTime r = Parsed start"
      "ir_estimatedDuration r = Parsed dur" by blast
    show ?thesis
    proof (cases "bookingEnd start dur")
      case None
      then show ?thesis by (simp add: initiate_invalid_end [OF x p])
    next
      case (Some endT)
      show ?thesis
      proof (cases "initiate_transaction e r u (canonicalPortId port (ir_portId r)) start
                      endT dur d1")
        case (Inl res)
        with initiate_transaction_status [of e r u _ start _ dur d1 "fst res" "snd res"]
        show ?thesis by (simp add: initiate_after_lookup [OF x p Some])
      next
        case (Inr y)
        with initiate_payment_status
          [of e "totalAmountNPR (take 8 (ir_stationId r) = ''station-'') st dur" "fst y" "snd y"]
        show ?thesis by (auto simp: initiate_after_lookup [OF x p Some] split: prod.splits)
      qed
    qed
  next
    case False
    then show ?thesis
      using x by (auto simp: POST_payments_initiate_def split: field.splits)
  qed
  then show ?thesis by simp
qed

lemma initiate_status:
  "fst (POST_payments_initiate e r d) \<in> {200, 400, 401, 404, 409, 500, 503}"
  "fst (POST_payments_initiate e r d) = 503 \<Longrightarrow> \<not> khaltiSecretKey e"
  using initiate_cases [of e r d] initiate_lookup_status [of e r d]
  by auto

text \<open>
  Claim C8, as amended: every response of a route handler carries a success status (200
  or 201) or one of the error statuses 400, 401, 403, 404, 409, 500, 503 and 410. The
  status 503 is given by payment initiation and verification, and only when the gateway
  key is not configured; 410 is the answer of the two deprecated Stripe endpoints.
\<close>

theorem route_error_statuses:
  "fst (POST_payments_initiate e r1 d) \<in> {200} \<union> uniformStatuses \<union> {503} \<and>
   (fst (POST_payments_initiate e r1 d) = 503 \<longrightarrow> \<not> khaltiSecretKey e) \<and>
   fst (POST_payments_verify e r2 d) \<in> {200} \<union> uniformStatuses \<union> {503} \<and>
   (fst (POST_payments_verify e r2 d) = 503 \<longrightarrow> \<not> khaltiSecretKey e) \<and>
   fst (POST_walkin_checkin e r3 d) \<in> {201} \<union> uniformStatuses \<and>
   fst (POST_admin_walkin e r4 d) \<in> {200, 201} \<union> uniformStatuses \<and>
   GET_admin_walkin x1 \<in> {200} \<union> uniformStatuses \<and>
   PATCH_admin_station_ports x2 \<in> {200} \<union> uniformStatuses \<and>
   GET_admin_stations x3 \<in> {200} \<union> uniformStatuses \<and>
   POST_admin_stations x4 \<in> {201} \<union> uniformStatuses \<and>
   POST_bookings_refresh_eta x5 \<in> {200} \<union> uniformStatuses \<and>
   GET_bookings x6 \<in> {200} \<union> uniformStatuses \<and>
   POST_bookings \<in> uniformStatuses \<and>
   POST_payments_create_intent = 410 \<and>
   POST_payments_webhook = 410"
proof -
  have a: "fst (POST_payments_initiate e r1 d) \<in> {200} \<union> uniformStatuses \<union> {503}"
    using initiate_status(1) [of e r1 d] by (auto simp: uniformStatuses_def)
  have b: "fst (POST_payments_verify e r2 d) \<in> {200} \<union> uniformStatuses \<union> {503}"
    using verify_status(1) [of e r2 d] by (auto simp: uniformStatuses_def)
  have c: "fst (POST_walkin_checkin e r3 d) \<in> {201} \<union> uniformStatuses"
    using checkin_status [of e r3 d] by (auto simp: uniformStatuses_def)
  have d: "fst (POST_admin_walkin e r4 d) \<in> {200, 201} \<union> uniformStatuses"
    using admin_walkin_status [of e r4 d] by (auto simp: uniformStatuses_def)
  have f: "GET_admin_walkin x1 \<in> {200} \<union> uniformStatuses"
    by (cases x1) (simp_all add: uniformStatuses_def)
  have g: "PATCH_admin_station_ports x2 \<in> {200} \<union> uniformStatuses"
    by (cases x2) (simp_all add: uniformStatuses_def)
  have h: "GET_admin_stations x3 \<in> {200} \<union> uniformStatuses"
    by (cases x3) (simp_all add: uniformStatuses_def)
  have i: "POST_admin_stations x4 \<in> {201} \<union> uniformStatuses"
    by (cases x4) (simp_all add: uniformStatuses_def)
  have j: "POST_bookings_refresh_eta x5 \<in> {200} \<union> uniformStatuses"
    by (cases x5) (simp_all add: uniformStatuses_def)
  have k: "GET_bookings x6 \<in> {200} \<union> uniformStatuses"
    by (cases x6) (simp_all add: uniformStatuses_def)
  have l: "POST_bookings \<in> uniformStatuses"
    by (simp add: POST_bookings_def uniformStatuses_def)
  have m: "POST_payments_create_intent = 410" "POST_payments_webhook = 410"
    by (simp_all add: POST_payments_create_intent_def POST_payments_webhook_def)
  from a b c d f g h i j k l m initiate_status(2) [of e r1 d] verify_status(2) [of e r2 d]
  show ?thesis by (intro conjI impI)
qed

text \<open>
  Verification without a gateway key.
\<close>

theorem route_error_statuses_witness:
  "fst (POST_payments_verify demoEnvNoKey demoVerify demoDbPending) = 503 \<and>
   \<not> khaltiSecretKey demoEnvNoKey"
proof -
  have "fst (POST_payments_verify demoEnvNoKey demoVerify demoDbPending) = 503"
    by code_simp
  with route_error_statuses [of demoEnvNoKey _ demoDbPending demoVerify]
  show ?thesis by (simp only: simp_thms)
qed

text \<open>
  Claim C8 as stated fails: 410 and 503 are outside the six statuses of the uniform
  pattern, and the Stripe webhook answers 410 and verification without a gateway key
  answers 503.
\<close>

theorem route_error_statuses_counterexample:
  "POST_payments_webhook = 410 \<and> 410 \<notin> uniformStatuses \<and>
   fst (POST_payments_verify demoEnvNoKey demoVerify demoDbPending) = 503 \<and>
   503 \<notin> uniformStatuses"
  by code_simp

end
